theory Spec2Isabelle
  imports Complex_Main "HOL-Library.Log_Nat" "HOL-Library.Multiset"
begin

section \<open>JavaScript numbers: the percentage of a result\<close>

text \<open>
  \<^verbatim>\<open>Math.round((score / total) * 100)\<close> is computed in IEEE 754 binary64 arithmetic.
  Scores, totals and timestamps are integers below \<open>2^53\<close> in absolute value, so they
  are exact doubles; the quotient and the product are rounded to 53 significant bits
  (round to nearest, ties to even) and stay far from overflow and underflow.
  A division by zero gives an infinity or NaN, which \<^verbatim>\<open>Math.round\<close> returns as it is.
\<close>

definition pow2 :: "int \<Rightarrow> rat" where
  "pow2 e = (if 0 \<le> e then 2 ^ nat e else 1 / 2 ^ nat (- e))"

text \<open>The binary exponent \<open>\<lfloor>log\<^sub>2 x\<rfloor>\<close> of a positive rational.\<close>

definition flog2 :: "rat \<Rightarrow> int" where
  "flog2 x = (let (p, q) = quotient_of x; d = bitlen p - bitlen q
              in if pow2 d \<le> x then d else d - 1)"

definition round_half_even :: "rat \<Rightarrow> int" where
  "round_half_even m = (let f = \<lfloor>m\<rfloor>; r = m - of_int f
     in if r < 1 / 2 then f else if 1 / 2 < r then f + 1
        else if even f then f else f + 1)"

text \<open>Rounding a rational to the nearest binary64 value (normal range).\<close>

definition rnd53 :: "rat \<Rightarrow> rat" where
  "rnd53 x = (if x = 0 then 0 else
     let a = \<bar>x\<bar>; e = flog2 a - 52; n = round_half_even (a / pow2 e)
     in sgn x * of_int n * pow2 e)"

text \<open>\<^verbatim>\<open>Math.round\<close>: the nearest integer, a tie going up.\<close>

definition Math_round :: "rat \<Rightarrow> int" where
  "Math_round x = \<lfloor>x + 1 / 2\<rfloor>"

datatype jsnum = Num int | PosInf | NegInf | NaN

definition percent_of :: "int \<Rightarrow> int \<Rightarrow> jsnum" where
  "percent_of score tot =
     (if tot = 0 then (if score = 0 then NaN else if 0 < score then PosInf else NegInf)
      else Num (Math_round (rnd53 (rnd53 (of_int score / of_int tot) * 100))))"

text \<open>\<^verbatim>\<open>pct >= best\<close> with a finite right-hand side.\<close>

fun js_ge :: "jsnum \<Rightarrow> int \<Rightarrow> bool" where
  "js_ge (Num n) b = (b \<le> n)"
| "js_ge PosInf b = True"
| "js_ge NegInf b = False"
| "js_ge NaN b = False"

text \<open>\<^verbatim>\<open>JSON.stringify\<close> writes a non-finite number as \<^verbatim>\<open>null\<close>.\<close>

fun json_num :: "jsnum \<Rightarrow> int option" where
  "json_num (Num n) = Some n"
| "json_num _ = None"

text \<open>\<^verbatim>\<open>x || 0\<close> and \<^verbatim>\<open>x || ''\<close> on a value read back from JSON.\<close>

fun or0 :: "int option \<Rightarrow> int" where
  "or0 None = 0"
| "or0 (Some n) = n"

fun or_empty :: "string option \<Rightarrow> string" where
  "or_empty None = []"
| "or_empty (Some s) = s"


section \<open>The progress store (js/progress.js)\<close>

text \<open>
  The value kept under \<^verbatim>\<open>grammarhub_progress_v2\<close> in local storage, as
  \<^verbatim>\<open>Progress.getAll\<close> parses it: an object with one key per subject, each an object of
  levels, each an object of sets, and the reserved key \<^verbatim>\<open>_meta\<close>. Fields of an entry may
  be missing or \<^verbatim>\<open>null\<close> in the JSON text (the code reads them with \<^verbatim>\<open>|| 0\<close>), hence
  the options. The subject map holds the keys other than \<^verbatim>\<open>_meta\<close>; local storage is a
  reliable store here (the code logs and ignores a failed write).
\<close>

record entry =
  score :: "int option"
  total :: "int option"
  percentage :: "int option"
  date :: "string option"
  timestamp :: "int option"
  timeTaken :: "int option"

record last_attempt =
  la_subject :: string
  la_level :: string
  la_set :: string
  la_percentage :: "int option"
  la_date :: string
  la_timestamp :: int

record meta =
  lastAttempted :: "last_attempt option"
  studentName :: "string option"
  other_fields :: "(string \<times> string) list"

type_synonym sets = "string \<rightharpoonup> entry"
type_synonym levels = "string \<rightharpoonup> sets"

record store =
  meta :: "meta option"
  subjects :: "string \<rightharpoonup> levels"

definition empty_meta :: meta where
  "empty_meta = \<lparr>lastAttempted = None, studentName = None, other_fields = []\<rparr>"

text \<open>\<^verbatim>\<open>data._meta || {}\<close>\<close>

definition meta_or_empty :: "store \<Rightarrow> meta" where
  "meta_or_empty data = (case meta data of None \<Rightarrow> empty_meta | Some m \<Rightarrow> m)"

text \<open>
  Nested objects \<^verbatim>\<open>obj[subject][level][set]\<close>: the optional-chaining read
  \<^verbatim>\<open>obj[subject]?.[level]?.[set]\<close>, the two guards that create a missing container
  (\<^verbatim>\<open>if (!obj[subject]) obj[subject] = {}\<close> and
  \<^verbatim>\<open>if (!obj[subject][level]) obj[subject][level] = {}\<close>), and the assignment
  \<^verbatim>\<open>obj[subject][level][set] = e\<close>, which the code only runs after both guards.
\<close>

definition get3 :: "(string \<rightharpoonup> levels) \<Rightarrow> string \<Rightarrow> string \<Rightarrow> string \<Rightarrow> entry option" where
  "get3 obj subject level st =
     (case obj subject of None \<Rightarrow> None
      | Some lv \<Rightarrow> (case lv level of None \<Rightarrow> None | Some ss \<Rightarrow> ss st))"

definition ensure_subject :: "(string \<rightharpoonup> levels) \<Rightarrow> string \<Rightarrow> (string \<rightharpoonup> levels)" where
  "ensure_subject obj subject =
     (case obj subject of None \<Rightarrow> obj(subject \<mapsto> Map.empty) | Some lv \<Rightarrow> obj)"

definition ensure_level :: "(string \<rightharpoonup> levels) \<Rightarrow> string \<Rightarrow> string \<Rightarrow> (string \<rightharpoonup> levels)" where
  "ensure_level obj subject level =
     (case obj subject of None \<Rightarrow> obj
      | Some lv \<Rightarrow> (case lv level of None \<Rightarrow> obj(subject \<mapsto> lv(level \<mapsto> Map.empty))
                   | Some ss \<Rightarrow> obj))"

definition assign3 :: "(string \<rightharpoonup> levels) \<Rightarrow> string \<Rightarrow> string \<Rightarrow> string \<Rightarrow> entry \<Rightarrow> (string \<rightharpoonup> levels)" where
  "assign3 obj subject level st e =
     (case obj subject of None \<Rightarrow> obj
      | Some lv \<Rightarrow> (case lv level of None \<Rightarrow> obj
                   | Some ss \<Rightarrow> obj(subject \<mapsto> lv(level \<mapsto> ss(st \<mapsto> e)))))"

definition put3 :: "(string \<rightharpoonup> levels) \<Rightarrow> string \<Rightarrow> string \<Rightarrow> string \<Rightarrow> entry \<Rightarrow> (string \<rightharpoonup> levels)" where
  "put3 obj subject level st e =
     assign3 (ensure_level (ensure_subject obj subject) subject level) subject level st e"

text \<open>\<^verbatim>\<open>Progress.getSetResult\<close>, that is \<^verbatim>\<open>getAll()[subject]?.[level]?.[set] || null\<close>.\<close>

definition getSetResult :: "store \<Rightarrow> string \<Rightarrow> string \<Rightarrow> string \<Rightarrow> entry option" where
  "getSetResult data subject level st = get3 (subjects data) subject level st"

text \<open>\<^verbatim>\<open>data[subject]?.[level]?.[set]?.percentage || 0\<close>\<close>

definition best_percentage :: "store \<Rightarrow> string \<Rightarrow> string \<Rightarrow> string \<Rightarrow> int" where
  "best_percentage data subject level st =
     (case getSetResult data subject level st of None \<Rightarrow> 0 | Some e \<Rightarrow> or0 (percentage e))"

definition put_entry :: "store \<Rightarrow> string \<Rightarrow> string \<Rightarrow> string \<Rightarrow> entry \<Rightarrow> store" where
  "put_entry data subject level st e =
     data\<lparr>subjects := put3 (subjects data) subject level st e\<rparr>"

text \<open>
  \<^verbatim>\<open>Progress.saveResult(subject, level, set, score, total, timeTaken)\<close>. The formatted
  date and \<^verbatim>\<open>Date.now()\<close> are inputs. The result is the new store and the returned
  percentage.
\<close>

definition saveResult ::
  "store \<Rightarrow> string \<Rightarrow> string \<Rightarrow> string \<Rightarrow> int \<Rightarrow> int \<Rightarrow> int \<Rightarrow> string \<Rightarrow> int \<Rightarrow> store \<times> jsnum" where
  "saveResult data subject level st scr tot tt dat ts =
     (let pct = percent_of scr tot;
          best = best_percentage data subject level st;
          data1 = data\<lparr>meta := Some ((meta_or_empty data)\<lparr>lastAttempted := Some
                    \<lparr>la_subject = subject, la_level = level, la_set = st,
                     la_percentage = json_num pct, la_date = dat, la_timestamp = ts\<rparr>\<rparr>)\<rparr>;
          data2 = (if js_ge pct best
                   then put_entry data1 subject level st
                          \<lparr>score = Some scr, total = Some tot, percentage = json_num pct,
                           date = Some dat, timestamp = Some ts, timeTaken = Some tt\<rparr>
                   else data1)
      in (data2, pct))"

text \<open>A store with one result, 80 percent on set 1 of tenses/high, used in examples.\<close>

definition example_entry :: entry where
  "example_entry = \<lparr>score = Some 4, total = Some 5, percentage = Some 80,
     date = Some ''Nov 1, 2026'', timestamp = Some 500, timeTaken = Some 60\<rparr>"

definition example_store :: store where
  "example_store = \<lparr>meta = None,
     subjects = [''tenses'' \<mapsto> [''high'' \<mapsto> [''1'' \<mapsto> example_entry]]]\<rparr>"

subsection \<open>Merging the backend's progress (\<^verbatim>\<open>Progress._mergeBackendData\<close>)\<close>

text \<open>
  The remote progress is a parsed JSON object. A JavaScript object is written as an
  association list: \<open>obj_keys\<close> is \<^verbatim>\<open>Object.keys\<close> (every key once) and \<open>map_of\<close> reads
  a property. A property of the remote object or of a subject may hold something that
  is not an object (\<^verbatim>\<open>success: false\<close>, an error text), which the loops skip.
\<close>

datatype 'a jobj = NotObject | Object "(string \<times> 'a) list"

definition obj_keys :: "(string \<times> 'a) list \<Rightarrow> string list" where
  "obj_keys obj = remdups (map fst obj)"

type_synonym remote_sets = "(string \<times> entry) list"
type_synonym remote_levels = "(string \<times> entry jobj) list"
type_synonym remote = "(string \<times> entry jobj jobj) list"

text \<open>The entry written to local storage from a remote one.\<close>

definition from_remote :: "entry \<Rightarrow> entry" where
  "from_remote remoteEntry =
     \<lparr>score = score remoteEntry, total = total remoteEntry,
      percentage = Some (or0 (percentage remoteEntry)),
      date = Some (or_empty (date remoteEntry)),
      timestamp = Some (or0 (timestamp remoteEntry)),
      timeTaken = Some (or0 (timeTaken remoteEntry))\<rparr>"

text \<open>
  The condition of the innermost \<^verbatim>\<open>if\<close>:
  \<^verbatim>\<open>!localEntry || remotePct > localPct || (remotePct === localPct && remoteTs > localTs)\<close>.
\<close>

definition replaces :: "entry option \<Rightarrow> entry \<Rightarrow> bool" where
  "replaces localEntry remoteEntry =
     (let remotePct = or0 (percentage remoteEntry);
          localPct = (case localEntry of None \<Rightarrow> 0 | Some e \<Rightarrow> or0 (percentage e))
      in localEntry = None \<or> localPct < remotePct \<or>
         (remotePct = localPct \<and>
          (case localEntry of None \<Rightarrow> 0 | Some e \<Rightarrow> or0 (timestamp e)) < or0 (timestamp remoteEntry)))"

text \<open>The body of the loop over the sets of one level.\<close>

definition merge_set ::
  "string \<Rightarrow> string \<Rightarrow> remote_sets \<Rightarrow> string \<Rightarrow> store \<times> last_attempt option
     \<Rightarrow> store \<times> last_attempt option" where
  "merge_set subject level rs st acc =
     (let (local, latestAttempt) = acc in
      if st = ''_meta'' then acc
      else case map_of rs st of None \<Rightarrow> acc
      | Some remoteEntry \<Rightarrow>
          let localEntry = getSetResult local subject level st;
              remotePct = or0 (percentage remoteEntry);
              local' = (if replaces localEntry remoteEntry
                        then local\<lparr>subjects :=
                               assign3 (subjects local) subject level st (from_remote remoteEntry)\<rparr>
                        else local);
              entryTs = or0 (timestamp remoteEntry);
              latest' = (if (case latestAttempt of None \<Rightarrow> True
                                | Some la \<Rightarrow> la_timestamp la < entryTs)
                         then Some \<lparr>la_subject = subject, la_level = level, la_set = st,
                                    la_percentage = Some remotePct,
                                    la_date = or_empty (date remoteEntry),
                                    la_timestamp = entryTs\<rparr>
                         else latestAttempt)
          in (local', latest'))"

text \<open>The body of the loop over the levels of one subject.\<close>

definition merge_level ::
  "string \<Rightarrow> remote_levels \<Rightarrow> string \<Rightarrow> store \<times> last_attempt option
     \<Rightarrow> store \<times> last_attempt option" where
  "merge_level subject rl level acc =
     (let (local, latestAttempt) = acc in
      if level = ''_meta'' then acc
      else case map_of rl level of
        Some (Object rs) \<Rightarrow>
          fold (merge_set subject level rs) (obj_keys rs)
            (local\<lparr>subjects := ensure_level (subjects local) subject level\<rparr>, latestAttempt)
      | _ \<Rightarrow> acc)"

text \<open>The body of the loop over the keys of the remote object.\<close>

definition merge_subject ::
  "remote \<Rightarrow> string \<Rightarrow> store \<times> last_attempt option \<Rightarrow> store \<times> last_attempt option" where
  "merge_subject rem subject acc =
     (let (local, latestAttempt) = acc in
      if subject = ''_meta'' \<or> subject = ''success'' then acc
      else case map_of rem subject of
        Some (Object rl) \<Rightarrow>
          fold (merge_level subject rl) (obj_keys rl)
            (local\<lparr>subjects := ensure_subject (subjects local) subject\<rparr>, latestAttempt)
      | _ \<Rightarrow> acc)"



text \<open>
  What the merge leaves at one subject, level and set, given the entry stored before
  and the remote entry, if there is one. The containers of a level exist
  (\<open>has_level\<close>) once the guards of the two outer loops have run.
\<close>

definition merged_entry :: "entry option \<Rightarrow> entry option \<Rightarrow> entry option" where
  "merged_entry localEntry remoteEntry =
     (case remoteEntry of None \<Rightarrow> localEntry
      | Some re \<Rightarrow> if replaces localEntry re then Some (from_remote re) else localEntry)"


definition has_subject :: "(string \<rightharpoonup> levels) \<Rightarrow> string \<Rightarrow> bool" where
  "has_subject obj subject = (obj subject \<noteq> None)"

definition has_level :: "(string \<rightharpoonup> levels) \<Rightarrow> string \<Rightarrow> string \<Rightarrow> bool" where
  "has_level obj subject level =
     (case obj subject of None \<Rightarrow> False | Some lv \<Rightarrow> lv level \<noteq> None)"

section \<open>The backend (Apps Script web app)\<close>

subsection \<open>\<^verbatim>\<open>_getStudentProgress\<close>\<close>

text \<open>
  A data row of the RESULTS sheet (the rows below the header), with the eleven columns
  of \<^verbatim>\<open>RES_COL\<close>. The sheet may be missing. The progress object has one property per
  subject, level and set, so it is a nested map.
\<close>

record res_row =
  res_studentId :: string
  res_name :: string
  res_subject :: string
  res_level :: string
  res_set :: string
  res_score :: int
  res_total :: int
  res_percentage :: int
  res_timeTaken :: int
  res_date :: string
  res_timestamp :: int

definition entry_of_row :: "res_row \<Rightarrow> entry" where
  "entry_of_row row =
     \<lparr>score = Some (res_score row), total = Some (res_total row),
      percentage = Some (res_percentage row), date = Some (res_date row),
      timestamp = Some (res_timestamp row), timeTaken = Some (res_timeTaken row)\<rparr>"









section \<open>The backend connector (backend/api.js)\<close>

text \<open>
  The browser state the connector works on: the student id and the progress object in
  local storage, the offline queue under \<^verbatim>\<open>grammarhub_sync_queue\<close>, and the dashboard
  cache marker in session storage. The outcome of a \<^verbatim>\<open>fetch\<close> is an input.
\<close>

definition BACKEND_URL :: "string option" where
  "BACKEND_URL = Some ''https://script.google.com/macros/s/AKfycbwaKHhwriV6EXea2zvkf6lIJPA14Q4uHLcui2v-o9ynvfSJYm572t-WVfXfd7vuLoGxhQ/exec''"

definition MAX_RETRIES :: int where
  "MAX_RETRIES = 3"

datatype fetch_outcome = HttpOk | HttpError nat | NetworkError string

datatype failure_reason = Http_status nat | Error_message string | No_backend_configured

record send_result =
  sent_success :: bool
  sent_reason :: "failure_reason option"

record payload =
  p_action :: string
  p_studentId :: string
  p_studentName :: string
  p_subject :: string
  p_level :: string
  p_set :: string
  p_score :: int
  p_total :: int
  p_timeTaken :: int
  p_percentage :: "int option"
  p_timestamp :: int
  p_date :: string

record queue_item = payload +
  retries :: "int option"

record cache_marker =
  cachedAt :: int
  cache_studentId :: string
  valid :: bool

record client =
  student_id :: "string option"
  progress :: store
  sync_queue :: "queue_item list"
  dashboard_cache :: "cache_marker option"

text \<open>\<^verbatim>\<open>API._sendPayload\<close>: success is \<^verbatim>\<open>res.ok\<close>, whatever the body says.\<close>

fun sendPayload :: "fetch_outcome \<Rightarrow> send_result" where
  "sendPayload HttpOk = \<lparr>sent_success = True, sent_reason = None\<rparr>"
| "sendPayload (HttpError n) = \<lparr>sent_success = False, sent_reason = Some (Http_status n)\<rparr>"
| "sendPayload (NetworkError msg) = \<lparr>sent_success = False, sent_reason = Some (Error_message msg)\<rparr>"

text \<open>\<^verbatim>\<open>getStudentId\<close>: the stored id, or a generated one (an input) that it stores.\<close>

definition getStudentId :: "client \<Rightarrow> string \<Rightarrow> string \<times> client" where
  "getStudentId c generated =
     (case student_id c of
        Some sid \<Rightarrow> if sid = [] then (generated, c\<lparr>student_id := Some generated\<rparr>) else (sid, c)
      | None \<Rightarrow> (generated, c\<lparr>student_id := Some generated\<rparr>))"

text \<open>\<^verbatim>\<open>getStudentName\<close>: \<^verbatim>\<open>data?._meta?.studentName || null\<close>\<close>

definition getStudentName :: "client \<Rightarrow> string option" where
  "getStudentName c =
     (case meta (progress c) of None \<Rightarrow> None
      | Some m \<Rightarrow> (case studentName m of None \<Rightarrow> None
                  | Some n \<Rightarrow> if n = [] then None else Some n))"

text \<open>\<^verbatim>\<open>Progress.invalidateCache\<close> and \<^verbatim>\<open>Progress._hasValidCache\<close>\<close>

definition invalidateCache :: "client \<Rightarrow> client" where
  "invalidateCache c =
     (case dashboard_cache c of None \<Rightarrow> c
      | Some cache \<Rightarrow> c\<lparr>dashboard_cache := Some (cache\<lparr>valid := False\<rparr>)\<rparr>)"

definition hasValidCache :: "client \<Rightarrow> bool" where
  "hasValidCache c = (case dashboard_cache c of None \<Rightarrow> False | Some cache \<Rightarrow> valid cache)"

text \<open>
  \<^verbatim>\<open>API.syncResult(subject, level, set, score, total, timeTaken)\<close>. Inputs from the
  environment: a generated student id, \<^verbatim>\<open>Date.now()\<close>, the ISO date and the outcome of
  the request. The percentage is the JSON view of the number (both uses of the payload
  serialise it).
\<close>

definition make_payload ::
  "string \<Rightarrow> string option \<Rightarrow> string \<Rightarrow> string \<Rightarrow> string \<Rightarrow> int \<Rightarrow> int \<Rightarrow> int \<Rightarrow> int \<Rightarrow> string \<Rightarrow> payload" where
  "make_payload sid name subject level st scr tot tt now isodate =
     \<lparr>p_action = ''saveResult'', p_studentId = sid,
      p_studentName = (case name of None \<Rightarrow> ''Anonymous'' | Some n \<Rightarrow> n),
      p_subject = subject, p_level = level, p_set = st, p_score = scr, p_total = tot,
      p_timeTaken = tt, p_percentage = json_num (percent_of scr tot),
      p_timestamp = now, p_date = isodate\<rparr>"

definition syncResult ::
  "client \<Rightarrow> string \<Rightarrow> string \<Rightarrow> string \<Rightarrow> int \<Rightarrow> int \<Rightarrow> int \<Rightarrow> string \<Rightarrow> int \<Rightarrow> string
     \<Rightarrow> fetch_outcome \<Rightarrow> send_result \<times> client" where
  "syncResult c subject level st scr tot tt generated now isodate outcome =
     (case BACKEND_URL of
        None \<Rightarrow> (\<lparr>sent_success = False, sent_reason = Some No_backend_configured\<rparr>, c)
      | Some url \<Rightarrow>
          let (sid, c1) = getStudentId c generated;
              pl = make_payload sid (getStudentName c1) subject level st scr tot tt now isodate;
              result = sendPayload outcome;
              c2 = (if sent_success result then invalidateCache c1 else c1);
              c3 = (if \<not> sent_success result
                    then c2\<lparr>sync_queue := sync_queue c2 @ [payload.extend pl \<lparr>retries = Some 0\<rparr>]\<rparr>
                    else c2)
          in (result, c3))"

text \<open>
  \<^verbatim>\<open>API.retryQueue\<close>. The loop sends the items in order; \<open>net i\<close> is the outcome of the
  request for the item at position \<open>i\<close>. The loop returns the items it sent and the
  items that remain.
\<close>

fun retry_loop :: "(nat \<Rightarrow> fetch_outcome) \<Rightarrow> nat \<Rightarrow> queue_item list \<Rightarrow> queue_item list \<times> queue_item list" where
  "retry_loop net i [] = ([], [])"
| "retry_loop net i (item # rest) =
     (let result = sendPayload (net i);
          (sent, remaining) = retry_loop net (Suc i) rest
      in if \<not> sent_success result
         then let item' = item\<lparr>retries := Some (or0 (retries item) + 1)\<rparr>
              in if or0 (retries item') < MAX_RETRIES
                 then (item # sent, item' # remaining)
                 else (item # sent, remaining)
         else (item # sent, remaining))"

definition retryQueue :: "client \<Rightarrow> (nat \<Rightarrow> fetch_outcome) \<Rightarrow> queue_item list \<times> client" where
  "retryQueue c net =
     (case BACKEND_URL of None \<Rightarrow> ([], c)
      | Some url \<Rightarrow>
          if sync_queue c = [] then ([], c)
          else let (sent, remaining) = retry_loop net 0 (sync_queue c)
               in (sent, c\<lparr>sync_queue := remaining\<rparr>))"

text \<open>An item as \<^verbatim>\<open>retryQueue\<close> leaves it after a failed request, or drops it.\<close>

definition after_failure :: "queue_item \<Rightarrow> queue_item list" where
  "after_failure item =
     (if or0 (retries item) + 1 < MAX_RETRIES
      then [item\<lparr>retries := Some (or0 (retries item) + 1)\<rparr>] else [])"

definition after_attempt :: "(nat \<Rightarrow> fetch_outcome) \<Rightarrow> nat \<times> queue_item \<Rightarrow> queue_item list" where
  "after_attempt net p = (if net (fst p) = HttpOk then [] else after_failure (snd p))"

definition example_client :: client where
  "example_client = \<lparr>student_id = Some ''STU_1'', progress = example_store, sync_queue = [],
     dashboard_cache = Some \<lparr>cachedAt = 10, cache_studentId = ''STU_1'', valid = True\<rparr>\<rparr>"

definition example_item :: queue_item where
  "example_item = payload.extend
     (make_payload ''STU_1'' None ''tenses'' ''high'' ''1'' 3 4 70 1000 ''2026-11-03T10:00:00.000Z'')
     \<lparr>retries = Some 0\<rparr>"

definition server_down :: "nat \<Rightarrow> fetch_outcome" where
  "server_down i = HttpError 503"


subsection \<open>Strings as the handlers normalise them\<close>

text \<open>
  \<^verbatim>\<open>String.prototype.trim\<close>, \<^verbatim>\<open>toLowerCase\<close> and \<^verbatim>\<open>toUpperCase\<close> on ASCII text (ids,
  emails, statuses and tokens are ASCII).
\<close>

definition is_space :: "char \<Rightarrow> bool" where
  "is_space c = (c \<in> {CHR 0x09, CHR 0x0A, CHR 0x0B, CHR 0x0C, CHR 0x0D, CHR '' ''})"

definition js_trim :: "string \<Rightarrow> string" where
  "js_trim s = rev (dropWhile is_space (rev (dropWhile is_space s)))"

definition lower_char :: "char \<Rightarrow> char" where
  "lower_char c =
     (case map_of (zip ''ABCDEFGHIJKLMNOPQRSTUVWXYZ'' ''abcdefghijklmnopqrstuvwxyz'') c of
        None \<Rightarrow> c | Some d \<Rightarrow> d)"


definition toLowerCase :: "string \<Rightarrow> string" where
  "toLowerCase s = map lower_char s"


text \<open>\<^verbatim>\<open>String(x || '').trim().toLowerCase()\<close>, the normal form of a status.\<close>

definition normal_status :: "string \<Rightarrow> string" where
  "normal_status s = toLowerCase (js_trim s)"

subsection \<open>Password hashing (\<^verbatim>\<open>_hashPassword\<close>, \<^verbatim>\<open>_generateSalt\<close>)\<close>

text \<open>
  \<^verbatim>\<open>Utilities.computeDigest(SHA_256, input)\<close> belongs to Apps Script; it is a parameter
  \<open>digest\<close>, a function from the text to its signed bytes. Each byte becomes two
  hexadecimal digits: \<^verbatim>\<open>('0' + (byte & 0xFF).toString(16)).slice(-2)\<close>.
\<close>

definition hex_digit :: "int \<Rightarrow> char" where
  "hex_digit d = (''0123456789abcdef'') ! nat d"

definition hex_byte :: "int \<Rightarrow> string" where
  "hex_byte b = (let v = b mod 256 in [hex_digit (v div 16), hex_digit (v mod 16)])"

definition hashPassword :: "(string \<Rightarrow> int list) \<Rightarrow> string \<Rightarrow> string \<Rightarrow> string" where
  "hashPassword digest password salt = concat (map hex_byte (digest (salt @ '':'' @ password)))"



subsection \<open>The REGISTRATION sheet and \<^verbatim>\<open>_findRowByColumn\<close>\<close>

text \<open>
  A data row of the REGISTRATION sheet with the twelve columns of \<^verbatim>\<open>REG_COL\<close>; the
  sheet is the list of its data rows (row \<open>i\<close> of the list is row \<open>i + 2\<close> of the sheet),
  and may be missing. Cells hold text as written. The script cache holds the count of
  failed logins per key; its expiry after 300 seconds is the environment's doing.
\<close>

record reg_row =
  reg_studentId :: string
  reg_name :: string
  reg_email :: string
  reg_hash :: string
  reg_salt :: string
  reg_status :: string
  reg_role :: string
  reg_createdAt :: string
  reg_lastLogin :: string
  reg_sessionToken :: string
  reg_approvedAt :: string
  reg_approvedBy :: string

datatype reg_col = STUDENT_ID | EMAIL

fun cell :: "reg_col \<Rightarrow> reg_row \<Rightarrow> string" where
  "cell STUDENT_ID r = reg_studentId r"
| "cell EMAIL r = reg_email r"

record backend =
  registration :: "reg_row list option"
  results :: "res_row list option"
  login_attempts :: "string \<rightharpoonup> nat"

text \<open>
  \<^verbatim>\<open>range.createTextFinder(text).matchCase(b).matchEntireCell(true).findNext()\<close> is
  Apps Script's: the first cell of the column whose whole content is the text, compared
  with or without regard to case.
\<close>

fun find_index :: "('a \<Rightarrow> bool) \<Rightarrow> 'a list \<Rightarrow> nat option" where
  "find_index P [] = None"
| "find_index P (x # xs) =
     (if P x then Some 0 else map_option Suc (find_index P xs))"

definition cell_matches :: "bool \<Rightarrow> string \<Rightarrow> string \<Rightarrow> bool" where
  "cell_matches matchCase searchStr c =
     (if matchCase then c = searchStr else toLowerCase c = toLowerCase searchStr)"

definition text_finder :: "bool \<Rightarrow> string \<Rightarrow> string list \<Rightarrow> nat option" where
  "text_finder matchCase searchStr cells = find_index (cell_matches matchCase searchStr) cells"

definition findRowByColumn :: "reg_row list \<Rightarrow> reg_col \<Rightarrow> string \<Rightarrow> (nat \<times> reg_row) option" where
  "findRowByColumn sheet col searchValue =
     (if searchValue = [] then None
      else let searchStr = js_trim searchValue in
      if searchStr = [] then None
      else if sheet = [] then None
      else case text_finder (col \<noteq> EMAIL) searchStr (map (cell col) sheet) of
        None \<Rightarrow> None
      | Some rowIndex \<Rightarrow>
          let values = sheet ! rowIndex; cellVal = js_trim (cell col values) in
          if col = EMAIL
          then (if toLowerCase cellVal \<noteq> toLowerCase searchStr then None
                else Some (rowIndex, values))
          else (if cellVal \<noteq> searchStr then None else Some (rowIndex, values)))"

subsection \<open>Responses\<close>

record response =
  resp_success :: bool
  resp_status :: "string option"
  resp_error :: "string option"
  resp_code :: "string option"
  resp_reason :: "string option"
  resp_message :: "string option"
  resp_studentId :: "string option"
  resp_studentName :: "string option"
  resp_email :: "string option"
  resp_token :: "string option"

definition failure :: response where
  "failure = \<lparr>resp_success = False, resp_status = None, resp_error = None, resp_code = None,
     resp_reason = None, resp_message = None, resp_studentId = None, resp_studentName = None,
     resp_email = None, resp_token = None\<rparr>"

definition fail_with :: "string \<Rightarrow> string \<Rightarrow> response" where
  "fail_with err cd = failure\<lparr>resp_error := Some err, resp_code := Some cd\<rparr>"

definition fail_status :: "string \<Rightarrow> string \<Rightarrow> string \<Rightarrow> response" where
  "fail_status st err cd = failure\<lparr>resp_status := Some st, resp_error := Some err, resp_code := Some cd\<rparr>"

definition fail_reason :: "string \<Rightarrow> response" where
  "fail_reason r = failure\<lparr>resp_reason := Some r\<rparr>"


subsection \<open>\<^verbatim>\<open>_handleLogin\<close>\<close>

text \<open>
  The request fields are texts, an absent or empty one being falsy. The UUID of the new
  session token and the time are inputs. The result is the response and the new state
  of the sheet and the cache.
\<close>

definition rateLimitKey :: "string \<Rightarrow> string" where
  "rateLimitKey email = ''login_attempts_'' @ email"

definition attempts_of :: "backend \<Rightarrow> string \<Rightarrow> nat" where
  "attempts_of b email = (case login_attempts b (rateLimitKey email) of None \<Rightarrow> 0 | Some n \<Rightarrow> n)"

definition count_failure :: "backend \<Rightarrow> string \<Rightarrow> backend" where
  "count_failure b email =
     b\<lparr>login_attempts := (login_attempts b)(rateLimitKey email \<mapsto> attempts_of b email + 1)\<rparr>"

definition handleLogin ::
  "(string \<Rightarrow> int list) \<Rightarrow> backend \<Rightarrow> string \<Rightarrow> string \<Rightarrow> string \<Rightarrow> string \<Rightarrow> response \<times> backend" where
  "handleLogin digest b data_email data_password uuid now =
     (if data_email = [] \<or> data_password = []
      then (fail_with ''Email and password are required.'' ''MISSING_FIELDS'', b)
      else let email = toLowerCase (js_trim data_email); password = data_password in
      if 5 \<le> attempts_of b email
      then (fail_with ''Too many login attempts. Please wait 5 minutes.'' ''RATE_LIMITED'', b)
      else case registration b of
        None \<Rightarrow> (fail_with ''Registration sheet not found.'' ''SHEET_NOT_FOUND'', b)
      | Some regSheet \<Rightarrow>
          (case findRowByColumn regSheet EMAIL email of
             None \<Rightarrow> (fail_with ''Invalid email or password.'' ''INVALID_CREDENTIALS'',
                       count_failure b email)
           | Some (rowIndex, row) \<Rightarrow>
               let st = normal_status (reg_status row) in
               if st = ''pending''
               then (fail_status ''pending''
                       ''Account pending approval. Please contact your teacher.''
                       ''ACCOUNT_PENDING'', b)
               else if st = ''suspended''
               then (fail_status ''suspended'' ''Account suspended. Contact administrator.''
                       ''ACCOUNT_SUSPENDED'', b)
               else if st = ''rejected''
               then (fail_status ''rejected'' ''Account rejected. Contact administrator.''
                       ''ACCOUNT_REJECTED'', b)
               else if st = ''blocked''
               then (fail_status ''blocked'' ''Account blocked. Contact administrator.''
                       ''ACCOUNT_BLOCKED'', b)
               else if st \<noteq> ''approved''
               then (fail_with ''Account not approved.'' ''ACCOUNT_NOT_APPROVED'', b)
               else if hashPassword digest password (reg_salt row) \<noteq> reg_hash row
               then (fail_with ''Invalid email or password.'' ''INVALID_CREDENTIALS'',
                     count_failure b email)
               else
                 (failure\<lparr>resp_success := True, resp_studentId := Some (reg_studentId row),
                    resp_studentName := Some (reg_name row), resp_email := Some email,
                    resp_token := Some uuid\<rparr>,
                  b\<lparr>registration :=
                       Some (regSheet[rowIndex := row\<lparr>reg_lastLogin := now, reg_sessionToken := uuid\<rparr>]),
                    login_attempts := (login_attempts b)(rateLimitKey email := None)\<rparr>)))"

subsection \<open>\<^verbatim>\<open>_handleCheckSession\<close> and \<^verbatim>\<open>_handleLogout\<close>\<close>

definition handleCheckSession :: "backend \<Rightarrow> string \<Rightarrow> string \<Rightarrow> response" where
  "handleCheckSession b data_studentId data_activeSessionToken =
     (if data_studentId = [] \<or> data_activeSessionToken = []
      then fail_reason ''missing_params''
      else case registration b of
        None \<Rightarrow> fail_reason ''sheet_not_found''
      | Some sheet \<Rightarrow>
          (case findRowByColumn sheet STUDENT_ID data_studentId of
             None \<Rightarrow> fail_reason ''student_not_found''
           | Some (rowIndex, row) \<Rightarrow>
               if normal_status (reg_status row) \<noteq> ''approved''
               then fail_reason ''account_not_approved''
               else if reg_sessionToken row = data_activeSessionToken
               then failure\<lparr>resp_success := True\<rparr>
               else fail_reason ''session_invalid''))"

definition handleLogout :: "backend \<Rightarrow> string \<Rightarrow> response \<times> backend" where
  "handleLogout b data_studentId =
     (if data_studentId = [] then (fail_with ''Missing student ID.'' ''MISSING_ID'', b)
      else case registration b of
        None \<Rightarrow> (fail_with ''Sheet not found.'' ''SHEET_NOT_FOUND'', b)
      | Some sheet \<Rightarrow>
          (case findRowByColumn sheet STUDENT_ID data_studentId of
             None \<Rightarrow> (fail_with ''Student not found.'' ''STUDENT_NOT_FOUND'', b)
           | Some (rowIndex, row) \<Rightarrow>
               (failure\<lparr>resp_success := True\<rparr>,
                b\<lparr>registration := Some (sheet[rowIndex := row\<lparr>reg_sessionToken := []\<rparr>])\<rparr>)))"

subsection \<open>\<^verbatim>\<open>_handleRegister\<close>\<close>



subsection \<open>\<^verbatim>\<open>_handleAdminAction\<close>\<close>


text \<open>A stand-in for the digest in examples: the bytes of the text itself.\<close>

definition example_digest :: "string \<Rightarrow> int list" where
  "example_digest s = map (\<lambda>c. int (of_char c)) s"

definition example_student :: reg_row where
  "example_student =
     \<lparr>reg_studentId = ''STU_1'', reg_name = ''Asha'', reg_email = ''asha@school.com'',
      reg_hash = hashPassword example_digest ''secret1'' ''0123456789abcdef'',
      reg_salt = ''0123456789abcdef'', reg_status = ''approved'', reg_role = ''student'',
      reg_createdAt = ''2026-11-01T08:00:00.000Z'', reg_lastLogin = [], reg_sessionToken = [],
      reg_approvedAt = ''2026-11-01T09:00:00.000Z'', reg_approvedBy = ''Admin''\<rparr>"

definition example_backend :: backend where
  "example_backend = \<lparr>registration = Some [example_student], results = Some [],
     login_attempts = Map.empty\<rparr>"


text \<open>The example backend after a first and after a second login of the same student.\<close>

definition first_login :: "response \<times> backend" where
  "first_login = handleLogin example_digest example_backend ''Asha@School.com '' ''secret1''
     ''uuid-A'' ''2026-11-03T10:00:00.000Z''"

definition second_login :: "response \<times> backend" where
  "second_login = handleLogin example_digest (snd first_login) ''asha@school.com'' ''secret1''
     ''uuid-B'' ''2026-11-03T11:00:00.000Z''"







section \<open>The quiz engine (js/engine.js)\<close>

subsection \<open>Question sets as parsed JSON, and \<^verbatim>\<open>validateQuestions\<close>\<close>

text \<open>
  A parsed JSON value; an object lists each key once. \<open>get_prop\<close> is the property read
  \<^verbatim>\<open>v.key\<close> for the keys the engine reads (\<^verbatim>\<open>q\<close>, \<^verbatim>\<open>options\<close>, \<^verbatim>\<open>answer\<close>), which only an
  object can have; \<open>truthy\<close> is the test of \<^verbatim>\<open>q && ...\<close>.
\<close>

datatype json = JNull | JBool bool | JNum rat | JStr string | JArr "json list"
  | JObj "(string \<times> json) list"

fun get_prop :: "json \<Rightarrow> string \<Rightarrow> json option" where
  "get_prop (JObj kvs) k = map_of kvs k"
| "get_prop _ k = None"

fun truthy :: "json \<Rightarrow> bool" where
  "truthy JNull = False"
| "truthy (JBool b) = b"
| "truthy (JNum n) = (n \<noteq> 0)"
| "truthy (JStr s) = (s \<noteq> [])"
| "truthy (JArr xs) = True"
| "truthy (JObj kvs) = True"

text \<open>\<^verbatim>\<open>typeof v === 'string' && v.trim().length > 0\<close>\<close>

fun nonblank_string :: "json option \<Rightarrow> bool" where
  "nonblank_string (Some (JStr s)) = (js_trim s \<noteq> [])"
| "nonblank_string _ = False"

text \<open>\<^verbatim>\<open>Array.isArray(v) && v.length >= 2\<close>\<close>

fun options_array :: "json option \<Rightarrow> bool" where
  "options_array (Some (JArr os)) = (2 \<le> length os)"
| "options_array _ = False"

text \<open>\<^verbatim>\<open>v.length\<close> of the options, once they are known to be an array.\<close>

fun options_length :: "json option \<Rightarrow> nat" where
  "options_length (Some (JArr os)) = length os"
| "options_length _ = 0"

text \<open>
  \<^verbatim>\<open>typeof a === 'number' && Number.isInteger(a) && a >= 0 && a < n\<close>
\<close>

fun answer_in_range :: "json option \<Rightarrow> nat \<Rightarrow> bool" where
  "answer_in_range (Some (JNum a)) n = (a = of_int \<lfloor>a\<rfloor> \<and> 0 \<le> a \<and> a < of_nat n)"
| "answer_in_range _ n = False"

definition valid_question :: "json \<Rightarrow> bool" where
  "valid_question q =
     (truthy q \<and> nonblank_string (get_prop q ''q'') \<and>
      options_array (get_prop q ''options'') \<and>
      answer_in_range (get_prop q ''answer'') (options_length (get_prop q ''options'')))"

fun validateQuestions :: "json \<Rightarrow> json list" where
  "validateQuestions (JArr raw) = filter valid_question raw"
| "validateQuestions _ = []"

text \<open>\<^verbatim>\<open>arr[i]\<close> for a number \<open>i\<close>: \<^verbatim>\<open>undefined\<close> (\<open>None\<close>) unless \<open>i\<close> is an index of the array.\<close>

definition js_index :: "'a list \<Rightarrow> rat \<Rightarrow> 'a option" where
  "js_index arr i =
     (if i = of_int \<lfloor>i\<rfloor> \<and> 0 \<le> i \<and> i < of_nat (length arr) then Some (arr ! nat \<lfloor>i\<rfloor>)
      else None)"

text \<open>The fields of a question the engine works with.\<close>

record question =
  q_text :: string
  q_options :: "json list"
  q_answer :: rat

fun question_of :: "json \<Rightarrow> question" where
  "question_of item =
     \<lparr>q_text = (case get_prop item ''q'' of Some (JStr s) \<Rightarrow> s | _ \<Rightarrow> []),
      q_options = (case get_prop item ''options'' of Some (JArr os) \<Rightarrow> os | _ \<Rightarrow> []),
      q_answer = (case get_prop item ''answer'' of Some (JNum a) \<Rightarrow> a | _ \<Rightarrow> - 1)\<rparr>"

subsection \<open>Rendering: \<^verbatim>\<open>shuffle\<close>, \<^verbatim>\<open>_renderMCQ\<close>, \<^verbatim>\<open>_renderFill\<close>\<close>

text \<open>
  The Fisher-Yates loop. \<^verbatim>\<open>Math.floor(Math.random() * (i + 1))\<close> is some index from
  \<open>0\<close> to \<open>i\<close>; the random source \<open>rnd\<close> is an input.
\<close>

fun shuffle_from :: "(nat \<Rightarrow> nat) \<Rightarrow> nat \<Rightarrow> 'a list \<Rightarrow> 'a list" where
  "shuffle_from rnd 0 arr = arr"
| "shuffle_from rnd (Suc k) arr =
     (let i = Suc k; j = rnd i mod (i + 1)
      in shuffle_from rnd k (arr[i := arr ! j, j := arr ! i]))"

definition shuffle :: "(nat \<Rightarrow> nat) \<Rightarrow> 'a list \<Rightarrow> 'a list" where
  "shuffle rnd arr = shuffle_from rnd (length arr - 1) arr"

record opt =
  opt_text :: json
  origIdx :: nat
  isCorrect :: bool

text \<open>
  \<^verbatim>\<open>item.options.map((t, origI) => ({text: t, origIdx: origI, isCorrect: origI === item.answer}))\<close>
  (the multiple-choice renderer does not set \<^verbatim>\<open>isCorrect\<close>, and does not read it).
\<close>

definition make_opts :: "question \<Rightarrow> opt list" where
  "make_opts item =
     map (\<lambda>(origI, t). \<lparr>opt_text = t, origIdx = origI, isCorrect = (of_nat origI = q_answer item)\<rparr>)
       (enumerate 0 (q_options item))"

text \<open>
  \<^verbatim>\<open>escapeHTML\<close> (js/app.js) sets the text of an element and reads its HTML back: the
  characters \<^verbatim>\<open>&\<close>, \<^verbatim>\<open><\<close> and \<^verbatim>\<open>>\<close> become entities.
\<close>

definition escapeHTML :: "string \<Rightarrow> string" where
  "escapeHTML s = concat (map (\<lambda>c. if c = CHR ''&'' then ''&amp;''
                                   else if c = CHR ''<'' then ''&lt;''
                                   else if c = CHR ''>'' then ''&gt;'' else [c]) s)"

fun starts_with :: "string \<Rightarrow> string \<Rightarrow> bool" where
  "starts_with [] s = True"
| "starts_with (p # ps) [] = False"
| "starts_with (p # ps) (c # cs) = (p = c \<and> starts_with ps cs)"

fun contains :: "string \<Rightarrow> string \<Rightarrow> bool" where
  "contains [] p = (p = [])"
| "contains (c # cs) p = (starts_with p (c # cs) \<or> contains cs p)"

text \<open>
  The pattern of \<^verbatim>\<open>_renderFill\<close> (\<^verbatim>\<open>_{2,}\<close>, \<^verbatim>\<open>\.{3,}\<close> or U+2026) matches a text that has two
  underscores, three dots or an ellipsis character (three bytes in UTF-8); each match
  becomes the element with the id \<^verbatim>\<open>blank-<qIdx>\<close>. Without a match there is no such
  element.
\<close>

definition has_blank :: "string \<Rightarrow> bool" where
  "has_blank html = (contains html ''__'' \<or> contains html ''...'' \<or>
                     contains html [CHR 0xE2, CHR 0x80, CHR 0xA6])"

text \<open>
  What the reveal functions read from a rendered card: for multiple choice the
  option and the \<^verbatim>\<open>dataset.correct\<close> of each button in order, for fill-in-the-blank
  whether the element \<^verbatim>\<open>#blank-<qIdx>\<close> exists, and the options behind the buttons.
\<close>

datatype qcard = McqCard "(opt \<times> bool) list" | FillCard bool "opt list"

definition renderMCQ_card :: "(nat \<Rightarrow> nat) \<Rightarrow> question \<Rightarrow> qcard" where
  "renderMCQ_card rnd item =
     (let opts = shuffle rnd (make_opts item);
          newCorrectIdx = find_index (\<lambda>ob. of_nat (origIdx ob) = q_answer item) opts
      in McqCard (map (\<lambda>(i, ob). (ob, Some i = newCorrectIdx)) (enumerate 0 opts)))"

definition renderFill_card :: "(nat \<Rightarrow> nat) \<Rightarrow> question \<Rightarrow> qcard" where
  "renderFill_card rnd item =
     FillCard (has_blank (escapeHTML (q_text item))) (shuffle rnd (make_opts item))"

subsection \<open>State, \<^verbatim>\<open>init\<close>, selection and \<^verbatim>\<open>_submitQuiz\<close>\<close>

text \<open>
  The module state: the questions, the engine type from the subject's configuration
  (anything but \<^verbatim>\<open>'mcq'\<close> renders fill-in-the-blank), the re-submission guard, and the
  answers, one slot per question (the handlers only write the slot of their own card);
  \<^verbatim>\<open>Object.keys(answers).length\<close> counts the filled slots. A multiple-choice answer is
  the position of the chosen button, a fill answer the chosen option.
\<close>

datatype engine = Mcq | Fill

datatype answer = Picked nat | Chosen opt

record engine_state =
  questions :: "question list"
  cards :: "qcard list"
  answers :: "answer option list"
  engineType :: engine
  submitted :: bool

datatype fetch_json = FetchFailed string | HttpNotOk nat | BadJson string | Body json

datatype load_error = Set_not_found string nat | No_valid_questions | Other_error string

text \<open>The message of the error \<^verbatim>\<open>init\<close> shows for a set without a valid question.\<close>

fun error_message :: "load_error \<Rightarrow> string option" where
  "error_message No_valid_questions = Some ''No valid questions found in this set.''"
| "error_message (Other_error msg) = Some msg"
| "error_message (Set_not_found st status) = None"

text \<open>
  \<^verbatim>\<open>_render\<close>: one card per question; \<open>rnd qIdx\<close> is the random source of the shuffle of
  question \<open>qIdx\<close>.
\<close>

definition render_cards :: "engine \<Rightarrow> (nat \<Rightarrow> nat \<Rightarrow> nat) \<Rightarrow> question list \<Rightarrow> qcard list" where
  "render_cards et rnd qs =
     map (\<lambda>(qIdx, item). if et = Mcq then renderMCQ_card (rnd qIdx) item
                           else renderFill_card (rnd qIdx) item) (enumerate 0 qs)"

text \<open>
  The part of \<^verbatim>\<open>init\<close> that loads the set: an error panel with the message (\<open>Inl\<close>), or
  the rendered quiz.
\<close>

definition init :: "engine \<Rightarrow> (nat \<Rightarrow> nat \<Rightarrow> nat) \<Rightarrow> string \<Rightarrow> fetch_json \<Rightarrow> load_error + engine_state" where
  "init et rnd st res =
     (case res of
        FetchFailed msg \<Rightarrow> Inl (Other_error msg)
      | HttpNotOk status \<Rightarrow> Inl (Set_not_found st status)
      | BadJson msg \<Rightarrow> Inl (Other_error msg)
      | Body raw \<Rightarrow>
          let qs = map question_of (validateQuestions raw) in
          if length qs = 0 then Inl No_valid_questions
          else Inr \<lparr>questions = qs, cards = render_cards et rnd qs,
                    answers = replicate (length qs) None, engineType = et, submitted = False\<rparr>)"

definition selectMCQ :: "engine_state \<Rightarrow> nat \<Rightarrow> nat \<Rightarrow> engine_state" where
  "selectMCQ s qIdx selectedI =
     (if submitted s then s else s\<lparr>answers := (answers s)[qIdx := Some (Picked selectedI)]\<rparr>)"

definition selectFill :: "engine_state \<Rightarrow> nat \<Rightarrow> opt \<Rightarrow> engine_state" where
  "selectFill s qIdx ob =
     (if submitted s then s else s\<lparr>answers := (answers s)[qIdx := Some (Chosen ob)]\<rparr>)"

text \<open>
  \<^verbatim>\<open>_revealMCQ\<close>: the loop over the buttons sets \<^verbatim>\<open>scored = 1\<close> at a button that is
  correct and selected. \<^verbatim>\<open>_revealFill\<close>: \<^verbatim>\<open>scored = 1\<close> inside
  \<^verbatim>\<open>if (blank && userAns) { if (userAns.isCorrect) ...\<close>.
\<close>

definition revealMCQ :: "(opt \<times> bool) list \<Rightarrow> answer option \<Rightarrow> nat" where
  "revealMCQ buttons selected =
     fold (\<lambda>(i, btn) scored. if snd btn \<and> selected = Some (Picked i) then 1 else scored)
       (enumerate 0 buttons) 0"

definition revealFill :: "bool \<Rightarrow> answer option \<Rightarrow> nat" where
  "revealFill blank userAns =
     (case userAns of
        Some (Chosen ob) \<Rightarrow> if blank then (if isCorrect ob then 1 else 0) else 0
      | _ \<Rightarrow> 0)"

definition reveal :: "engine \<Rightarrow> qcard \<Rightarrow> answer option \<Rightarrow> nat" where
  "reveal et c a =
     (if et = Mcq then (case c of McqCard buttons \<Rightarrow> revealMCQ buttons a | FillCard bl obs \<Rightarrow> 0)
      else (case c of FillCard bl obs \<Rightarrow> revealFill bl a | McqCard buttons \<Rightarrow> 0))"

definition count_answered :: "answer option list \<Rightarrow> nat" where
  "count_answered ans = length (filter (\<lambda>a. a \<noteq> None) ans)"

text \<open>
  \<^verbatim>\<open>_submitQuiz\<close>. Nothing happens after a submission or while an answer is missing
  (the page only points at the first unanswered card). Otherwise the quiz is locked,
  the cards are revealed and scored, and \<^verbatim>\<open>Progress.saveResult\<close> stores the result;
  its return value is the percentage the result dialog shows. The call
  \<^verbatim>\<open>API.syncResult\<close> that follows is \<open>syncResult\<close> above with the same arguments.
\<close>

record submission =
  sub_score :: nat
  sub_percent :: jsnum
  sub_store :: store

definition submitQuiz ::
  "engine_state \<Rightarrow> store \<Rightarrow> string \<Rightarrow> string \<Rightarrow> string \<Rightarrow> int \<Rightarrow> string \<Rightarrow> int
     \<Rightarrow> engine_state \<times> submission option" where
  "submitQuiz s data subject level st tt dat ts =
     (if submitted s then (s, None)
      else if count_answered (answers s) < length (questions s) then (s, None)
      else let scr = sum_list (map (\<lambda>(c, a). reveal (engineType s) c a) (zip (cards s) (answers s)));
               (data', percent) = saveResult data subject level st (int scr)
                                    (int (length (questions s))) tt dat ts
           in (s\<lparr>submitted := True\<rparr>,
               Some \<lparr>sub_score = scr, sub_percent = percent, sub_store = data'\<rparr>))"

text \<open>
  The number of questions answered with the right option: the option chosen has the
  original index that the question names as its answer. A multiple-choice card is
  answered by the position of a button, a fill card by one of its options.
\<close>

definition chose_correct :: "question \<Rightarrow> qcard \<Rightarrow> answer option \<Rightarrow> bool" where
  "chose_correct item c a =
     (case c of
        McqCard buttons \<Rightarrow>
          (case a of
             Some (Picked i) \<Rightarrow>
               i < length buttons \<and> of_nat (origIdx (fst (buttons ! i))) = q_answer item
           | _ \<Rightarrow> False)
      | FillCard bl obs \<Rightarrow>
          (case a of
             Some (Chosen ob) \<Rightarrow> of_nat (origIdx ob) = q_answer item
           | _ \<Rightarrow> False))"

definition correct_count :: "engine_state \<Rightarrow> nat" where
  "correct_count s =
     length (filter (\<lambda>(item, c, a). chose_correct item c a)
               (zip (questions s) (zip (cards s) (answers s))))"

text \<open>A fill-in-the-blank set whose only question has no blank marker in its text.\<close>

definition plain_set :: json where
  "plain_set = JArr [JObj [(''q'', JStr ''Choose the past tense of go''),
     (''options'', JArr [JStr ''went'', JStr ''goed'']), (''answer'', JNum 0)]]"

definition went :: opt where
  "went = \<lparr>opt_text = JStr ''went'', origIdx = 0, isCorrect = True\<rparr>"

text \<open>A raw set with one well-formed question and three malformed entries.\<close>

definition mixed_set :: json where
  "mixed_set = JArr
     [JObj [(''q'', JStr ''She ___ to school.''),
            (''options'', JArr [JStr ''go'', JStr ''goes'']), (''answer'', JNum 1)],
      JObj [(''q'', JStr ''   ''),
            (''options'', JArr [JStr ''a'', JStr ''b'']), (''answer'', JNum 1)],
      JNull,
      JObj [(''q'', JStr ''Pick one''),
            (''options'', JArr [JStr ''a'', JStr ''b'']), (''answer'', JNum 2)]]"

text \<open>The quiz \<^verbatim>\<open>init\<close> starts from that set with the fill engine, and an empty store.\<close>

definition plain_quiz :: engine_state where
  "plain_quiz =
     \<lparr>questions = [\<lparr>q_text = ''Choose the past tense of go'',
                     q_options = [JStr ''went'', JStr ''goed''], q_answer = 0\<rparr>],
      cards = [FillCard False [\<lparr>opt_text = JStr ''goed'', origIdx = 1, isCorrect = False\<rparr>, went]],
      answers = [None], engineType = Fill, submitted = False\<rparr>"

definition empty_store :: store where
  "empty_store = \<lparr>meta = None, subjects = Map.empty\<rparr>"

section \<open>Properties of the progress store\<close>

lemma get3_ensure_subject [simp]:
  "get3 (ensure_subject obj s) s' l' t' = get3 obj s' l' t'"
  by (auto simp: get3_def ensure_subject_def split: option.splits)

lemma get3_ensure_level [simp]:
  "get3 (ensure_level obj s l) s' l' t' = get3 obj s' l' t'"
  by (auto simp: get3_def ensure_level_def split: option.splits)

lemma get3_put3:
  "get3 (put3 obj s l t e) s' l' t' =
     (if s' = s \<and> l' = l \<and> t' = t then Some e else get3 obj s' l' t')"
  by (auto simp: get3_def put3_def assign3_def ensure_level_def ensure_subject_def
           split: option.splits)

lemma getSetResult_put_entry:
  "getSetResult (put_entry data s l t e) s' l' t' =
     (if s' = s \<and> l' = l \<and> t' = t then Some e else getSetResult data s' l' t')"
  by (simp add: getSetResult_def put_entry_def get3_put3)

lemma getSetResult_meta_update [simp]:
  "getSetResult (data\<lparr>meta := m\<rparr>) s l t = getSetResult data s l t"
  by (simp add: getSetResult_def)

lemma best_percentage_meta_update [simp]:
  "best_percentage (data\<lparr>meta := m\<rparr>) s l t = best_percentage data s l t"
  by (simp add: best_percentage_def)



lemma percent_of_3_4: "percent_of 3 4 = Num 75"
  by code_simp



text \<open>
  C10. Every call of \<^verbatim>\<open>Progress.saveResult\<close> (subject other than the reserved key
  \<^verbatim>\<open>_meta\<close>) sets \<^verbatim>\<open>_meta.lastAttempted\<close> to the subject, level, set, percentage, date
  and timestamp of the new attempt and keeps the other fields of \<^verbatim>\<open>_meta\<close>; when the
  comparison \<^verbatim>\<open>pct >= best\<close> fails, nothing but \<^verbatim>\<open>_meta\<close> changes; and the entry of
  every other subject, level and set is what it was.
\<close>

theorem saveResult_last_attempted_frame:
  assumes "subject \<noteq> ''_meta''"
  shows "meta (fst (saveResult data subject level st scr tot tt dat ts)) =
           Some ((meta_or_empty data)\<lparr>lastAttempted := Some
              \<lparr>la_subject = subject, la_level = level, la_set = st,
               la_percentage = json_num (snd (saveResult data subject level st scr tot tt dat ts)),
               la_date = dat, la_timestamp = ts\<rparr>\<rparr>) \<and>
         (\<not> js_ge (percent_of scr tot) (best_percentage data subject level st) \<longrightarrow>
            subjects (fst (saveResult data subject level st scr tot tt dat ts)) = subjects data) \<and>
         (\<forall>s l t. (s, l, t) \<noteq> (subject, level, st) \<longrightarrow>
            getSetResult (fst (saveResult data subject level st scr tot tt dat ts)) s l t =
              getSetResult data s l t)"
  by (auto simp: saveResult_def Let_def put_entry_def getSetResult_def get3_put3)


lemma best_percentage_example:
  "best_percentage example_store ''tenses'' ''high'' ''1'' = 80"
  by (simp add: best_percentage_def getSetResult_def get3_def example_store_def example_entry_def)

theorem saveResult_last_attempted_frame_witness:
  "''tenses'' \<noteq> ''_meta'' \<and>
   meta (fst (saveResult example_store ''tenses'' ''high'' ''1'' 3 4 70 ''Nov 3, 2026'' 1000)) =
     Some \<lparr>lastAttempted = Some \<lparr>la_subject = ''tenses'', la_level = ''high'', la_set = ''1'',
              la_percentage = Some 75, la_date = ''Nov 3, 2026'', la_timestamp = 1000\<rparr>,
           studentName = None, other_fields = []\<rparr> \<and>
   subjects (fst (saveResult example_store ''tenses'' ''high'' ''1'' 3 4 70 ''Nov 3, 2026'' 1000)) =
     subjects example_store \<and>
   getSetResult (fst (saveResult example_store ''tenses'' ''high'' ''1'' 3 4 70 ''Nov 3, 2026'' 1000))
     ''tenses'' ''high'' ''2'' = getSetResult example_store ''tenses'' ''high'' ''2''"
proof -
  have ne: "''tenses'' \<noteq> ''_meta''" by simp
  have snd_eq: "snd (saveResult example_store ''tenses'' ''high'' ''1'' 3 4 70 ''Nov 3, 2026'' 1000)
      = Num 75"
    by (simp add: saveResult_def Let_def percent_of_3_4)
  have lower: "\<not> js_ge (percent_of 3 4) (best_percentage example_store ''tenses'' ''high'' ''1'')"
    by (simp add: percent_of_3_4 best_percentage_example)
  have other: "(''tenses'', ''high'', ''2'') \<noteq> (''tenses'', ''high'', ''1'')" by simp
  have m: "meta_or_empty example_store = empty_meta"
    by (simp add: meta_or_empty_def example_store_def)
  from saveResult_last_attempted_frame [OF ne, of example_store "''high''" "''1''" 3 4 70
      "''Nov 3, 2026''" 1000]
  show ?thesis
    using lower other by (simp add: snd_eq m empty_meta_def)
qed

section \<open>Best-score merge\<close>



lemma has_level_assign3 [simp]: "has_level (assign3 obj s l t e) s' l' = has_level obj s' l'"
  by (auto simp: assign3_def has_level_def split: option.splits)

lemma has_subject_assign3 [simp]: "has_subject (assign3 obj s l t e) s' = has_subject obj s'"
  by (auto simp: assign3_def has_subject_def split: option.splits)

lemma has_level_ensure_level:
  "has_level (ensure_level obj s l) s' l' =
     (has_level obj s' l' \<or> (s' = s \<and> l' = l \<and> has_subject obj s))"
  by (auto simp: ensure_level_def has_level_def has_subject_def split: option.splits)

lemma has_subject_ensure_level [simp]:
  "has_subject (ensure_level obj s l) s' = has_subject obj s'"
  by (auto simp: ensure_level_def has_subject_def split: option.splits)

lemma has_subject_ensure_subject:
  "has_subject (ensure_subject obj s) s' = (has_subject obj s' \<or> s' = s)"
  by (auto simp: ensure_subject_def has_subject_def split: option.splits)

lemma has_level_ensure_subject [simp]:
  "has_level (ensure_subject obj s) s' l' = has_level obj s' l'"
  by (auto simp: ensure_subject_def has_level_def split: option.splits)

lemma merged_entry_None [simp]: "merged_entry le None = le"
  by (simp add: merged_entry_def)


lemma merge_set_shape:
  "has_level (subjects (fst (merge_set s l rs t acc))) a b = has_level (subjects (fst acc)) a b"
  "has_subject (subjects (fst (merge_set s l rs t acc))) a = has_subject (subjects (fst acc)) a"
  "meta (fst (merge_set s l rs t acc)) = meta (fst acc)"
  by (cases acc; auto simp: merge_set_def Let_def split: option.splits)+

lemma fold_merge_set_shape:
  "has_level (subjects (fst (fold (merge_set s l rs) ks acc))) a b = has_level (subjects (fst acc)) a b"
  "has_subject (subjects (fst (fold (merge_set s l rs) ks acc))) a = has_subject (subjects (fst acc)) a"
  "meta (fst (fold (merge_set s l rs) ks acc)) = meta (fst acc)"
  by (induction ks arbitrary: acc; simp add: merge_set_shape)+



lemma set_obj_keys [simp]: "set (obj_keys obj) = fst ` set obj"
  by (simp add: obj_keys_def)



lemma getSetResult_ensure [simp]:
  "getSetResult (local\<lparr>subjects := ensure_level (subjects local) s l\<rparr>) a b c = getSetResult local a b c"
  "getSetResult (local\<lparr>subjects := ensure_subject (subjects local) s\<rparr>) a b c = getSetResult local a b c"
  by (simp_all add: getSetResult_def)


lemma merge_level_shape:
  "has_subject (subjects (fst (merge_level s rl l acc))) a = has_subject (subjects (fst acc)) a"
  "meta (fst (merge_level s rl l acc)) = meta (fst acc)"
  by (cases acc; auto simp: merge_level_def fold_merge_set_shape split: option.splits jobj.splits)+

lemma fold_merge_level_shape:
  "has_subject (subjects (fst (fold (merge_level s rl) ls acc))) a = has_subject (subjects (fst acc)) a"
  "meta (fst (fold (merge_level s rl) ls acc)) = meta (fst acc)"
  by (induction ls arbitrary: acc; simp add: merge_level_shape)+





lemma merge_subject_meta: "meta (fst (merge_subject rem s acc)) = meta (fst acc)"
  by (cases acc; auto simp: merge_subject_def fold_merge_level_shape split: option.splits jobj.splits)

lemma fold_merge_subject_meta: "meta (fst (fold (merge_subject rem) ks acc)) = meta (fst acc)"
  by (induction ks arbitrary: acc; simp add: merge_subject_meta)





lemma has_level_ensured [simp]:
  "has_level (ensure_level (ensure_subject obj s) s l) s l"
  by (simp add: has_level_ensure_level has_subject_ensure_subject)


lemma percentage_entry_of_row [simp]: "percentage (entry_of_row r) = Some (res_percentage r)"
  by (simp add: entry_of_row_def)








section \<open>The offline queue\<close>


lemma sent_success_iff [simp]: "sent_success (sendPayload out) = (out = HttpOk)"
  by (cases out) simp_all

lemma retry_loop_Cons:
  "retry_loop net i (item # rest) =
     (item # fst (retry_loop net (Suc i) rest),
      after_attempt net (i, item) @ snd (retry_loop net (Suc i) rest))"
  by (simp add: Let_def case_prod_beta after_attempt_def after_failure_def)

lemma retry_loop_sent: "fst (retry_loop net i q) = q"
  by (induction q arbitrary: i) (simp_all add: retry_loop_Cons del: retry_loop.simps(2))

lemma retry_loop_remaining:
  "snd (retry_loop net i q) = concat (map (after_attempt net) (enumerate i q))"
  by (induction q arbitrary: i) (simp_all add: retry_loop_Cons del: retry_loop.simps(2))


lemma retryQueue_sent: "fst (retryQueue c net) = sync_queue c"
  by (simp add: retryQueue_def BACKEND_URL_def case_prod_beta retry_loop_sent)

lemma retryQueue_remaining:
  "sync_queue (snd (retryQueue c net)) =
     concat (map (after_attempt net) (enumerate 0 (sync_queue c)))"
  by (simp add: retryQueue_def BACKEND_URL_def case_prod_beta retry_loop_remaining)

lemma all_fail_attempts:
  assumes "\<forall>i. net i \<noteq> HttpOk"
  shows "concat (map (after_attempt net) (enumerate i q)) = concat (map after_failure q)"
  using assms by (induction q arbitrary: i) (simp_all add: after_attempt_def)

lemma retryQueue_all_fail:
  assumes "\<forall>i. net i \<noteq> HttpOk"
  shows "sync_queue (snd (retryQueue c net)) = concat (map after_failure (sync_queue c))"
  by (simp add: retryQueue_remaining all_fail_attempts [OF assms])

lemma after_failure_raises:
  assumes "\<forall>item \<in> set q. k \<le> or0 (retries item)"
  shows "\<forall>item \<in> set (concat (map after_failure q)). k + 1 \<le> or0 (retries item)"
  using assms by (auto simp: after_failure_def split: if_splits)

lemma after_failure_drops:
  assumes "\<forall>item \<in> set q. MAX_RETRIES - 1 \<le> or0 (retries item)"
  shows "concat (map after_failure q) = []"
  using assms by (auto simp: after_failure_def)

text \<open>
  C4. \<^verbatim>\<open>API.retryQueue\<close> sends every queued item once, in order. An item whose request
  succeeds is not kept; an item whose request fails (a status that is not OK, or a
  network error) is kept with its counter incremented when the incremented counter is
  below \<open>MAX_RETRIES = 3\<close>, and dropped otherwise. Hence after three calls in which
  every request fails the queue is empty, for items whose counter starts at 0 or more:
  no item is sent more than three times without success.
\<close>

theorem retryQueue_bounded:
  "MAX_RETRIES = 3 \<and>
   fst (retryQueue c net) = sync_queue c \<and>
   sync_queue (snd (retryQueue c net)) =
     concat (map (\<lambda>(i, item).
         if net i = HttpOk then []
         else if or0 (retries item) + 1 < MAX_RETRIES
              then [item\<lparr>retries := Some (or0 (retries item) + 1)\<rparr>] else [])
       (enumerate 0 (sync_queue c))) \<and>
   ((\<forall>i. net_a i \<noteq> HttpOk \<and> net_b i \<noteq> HttpOk \<and> net_c i \<noteq> HttpOk) \<and>
    (\<forall>item \<in> set (sync_queue c). 0 \<le> or0 (retries item)) \<longrightarrow>
    sync_queue (snd (retryQueue (snd (retryQueue (snd (retryQueue c net_a)) net_b)) net_c)) = [])"
proof (intro conjI impI)
  show "MAX_RETRIES = 3" by (simp add: MAX_RETRIES_def)
  show "fst (retryQueue c net) = sync_queue c" by (rule retryQueue_sent)
  have "after_attempt net = (\<lambda>(i, item).
         if net i = HttpOk then []
         else if or0 (retries item) + 1 < MAX_RETRIES
              then [item\<lparr>retries := Some (or0 (retries item) + 1)\<rparr>] else [])"
    by (auto simp: after_attempt_def after_failure_def fun_eq_iff)
  then show "sync_queue (snd (retryQueue c net)) =
     concat (map (\<lambda>(i, item).
         if net i = HttpOk then []
         else if or0 (retries item) + 1 < MAX_RETRIES
              then [item\<lparr>retries := Some (or0 (retries item) + 1)\<rparr>] else [])
       (enumerate 0 (sync_queue c)))"
    using retryQueue_remaining [of c net] by simp
next
  assume a: "(\<forall>i. net_a i \<noteq> HttpOk \<and> net_b i \<noteq> HttpOk \<and> net_c i \<noteq> HttpOk) \<and>
    (\<forall>item \<in> set (sync_queue c). 0 \<le> or0 (retries item))"
  let ?c1 = "snd (retryQueue c net_a)"
  let ?c2 = "snd (retryQueue ?c1 net_b)"
  from a have f1: "\<forall>i. net_a i \<noteq> HttpOk" and f2: "\<forall>i. net_b i \<noteq> HttpOk"
    and f3: "\<forall>i. net_c i \<noteq> HttpOk" by simp_all
  from a have "\<forall>item \<in> set (sync_queue c). 0 \<le> or0 (retries item)" by simp
  then have "\<forall>item \<in> set (sync_queue ?c1). 0 + 1 \<le> or0 (retries item)"
    unfolding retryQueue_all_fail [OF f1] by (rule after_failure_raises)
  then have "\<forall>item \<in> set (sync_queue ?c2). 0 + 1 + 1 \<le> or0 (retries item)"
    unfolding retryQueue_all_fail [OF f2] by (rule after_failure_raises)
  then have "\<forall>item \<in> set (sync_queue ?c2). MAX_RETRIES - 1 \<le> or0 (retries item)"
    by (simp add: MAX_RETRIES_def)
  then show "sync_queue (snd (retryQueue ?c2 net_c)) = []"
    unfolding retryQueue_all_fail [OF f3] by (rule after_failure_drops)
qed


theorem retryQueue_bounded_witness:
  "sync_queue (snd (retryQueue (example_client\<lparr>sync_queue := [example_item]\<rparr>) server_down)) =
     [example_item\<lparr>retries := Some 1\<rparr>] \<and>
   sync_queue (snd (retryQueue (snd (retryQueue (example_client\<lparr>sync_queue := [example_item]\<rparr>)
       server_down)) server_down)) = [example_item\<lparr>retries := Some 2\<rparr>] \<and>
   sync_queue (snd (retryQueue (snd (retryQueue (snd (retryQueue
       (example_client\<lparr>sync_queue := [example_item]\<rparr>) server_down)) server_down)) server_down)) = []"
proof -
  let ?c = "example_client\<lparr>sync_queue := [example_item]\<rparr>"
  have r0: "retries example_item = Some 0"
    by (simp add: example_item_def payload.extend_def)
  have down: "\<forall>i. server_down i \<noteq> HttpOk \<and> server_down i \<noteq> HttpOk \<and> server_down i \<noteq> HttpOk"
    by (simp add: server_down_def)
  have nonneg: "\<forall>item \<in> set (sync_queue ?c). 0 \<le> or0 (retries item)"
    by (simp add: r0)
  note b = retryQueue_bounded [where net_a = server_down and net_b = server_down and net_c = server_down]
  have 1: "sync_queue (snd (retryQueue ?c server_down)) = [example_item\<lparr>retries := Some 1\<rparr>]"
    using b [where c = ?c and net = server_down]
    by (simp add: enumerate_eq_zip r0 server_down_def)
  have 2: "sync_queue (snd (retryQueue (snd (retryQueue ?c server_down)) server_down)) =
      [example_item\<lparr>retries := Some 2\<rparr>]"
    using b [where c = "snd (retryQueue ?c server_down)" and net = server_down]
    by (simp add: 1 enumerate_eq_zip server_down_def)
  have 3: "sync_queue (snd (retryQueue (snd (retryQueue (snd (retryQueue ?c server_down))
      server_down)) server_down)) = []"
    using b [where c = ?c and net = server_down] down nonneg by blast
  from 1 2 3 show ?thesis by simp
qed

lemma getStudentName_getStudentId [simp]:
  "getStudentName (snd (getStudentId c generated)) = getStudentName c"
  by (simp add: getStudentId_def getStudentName_def split: option.splits)

lemma getStudentId_frame [simp]:
  "sync_queue (snd (getStudentId c generated)) = sync_queue c"
  "dashboard_cache (snd (getStudentId c generated)) = dashboard_cache c"
  by (simp_all add: getStudentId_def split: option.splits)

lemma invalidateCache_frame [simp]:
  "sync_queue (invalidateCache c) = sync_queue c"
  "\<not> hasValidCache (invalidateCache c)"
  by (simp_all add: invalidateCache_def hasValidCache_def split: option.splits)

text \<open>
  C7. When the request of \<^verbatim>\<open>API.syncResult\<close> fails (a status that is not OK, or a
  network error), the call returns \<open>success: false\<close> and the persisted queue is the
  old queue followed by the whole payload with \<open>retries: 0\<close>, the dashboard cache being
  left as it was. When the request succeeds, the call returns \<open>success: true\<close>, the
  queue is unchanged and the session's dashboard cache is no longer valid.
\<close>

theorem syncResult_queues_on_failure:
  "(outcome \<noteq> HttpOk \<longrightarrow>
      \<not> sent_success (fst (syncResult c subject level st scr tot tt generated now isodate outcome)) \<and>
      sync_queue (snd (syncResult c subject level st scr tot tt generated now isodate outcome)) =
        sync_queue c @
        [\<lparr>p_action = ''saveResult'', p_studentId = fst (getStudentId c generated),
          p_studentName = (case getStudentName c of None \<Rightarrow> ''Anonymous'' | Some n \<Rightarrow> n),
          p_subject = subject, p_level = level, p_set = st, p_score = scr, p_total = tot,
          p_timeTaken = tt, p_percentage = json_num (percent_of scr tot),
          p_timestamp = now, p_date = isodate, retries = Some 0\<rparr>] \<and>
      dashboard_cache (snd (syncResult c subject level st scr tot tt generated now isodate outcome)) =
        dashboard_cache c) \<and>
   (outcome = HttpOk \<longrightarrow>
      sent_success (fst (syncResult c subject level st scr tot tt generated now isodate outcome)) \<and>
      sync_queue (snd (syncResult c subject level st scr tot tt generated now isodate outcome)) =
        sync_queue c \<and>
      \<not> hasValidCache (snd (syncResult c subject level st scr tot tt generated now isodate outcome)))"
  by (simp add: syncResult_def BACKEND_URL_def Let_def case_prod_beta make_payload_def
        payload.extend_def)

theorem syncResult_queues_on_failure_witness:
  "\<not> sent_success (fst (syncResult example_client ''tenses'' ''high'' ''1'' 3 4 70 ''STU_x'' 1000
       ''2026-11-03T10:00:00.000Z'' (NetworkError ''Failed to fetch''))) \<and>
   sync_queue (snd (syncResult example_client ''tenses'' ''high'' ''1'' 3 4 70 ''STU_x'' 1000
       ''2026-11-03T10:00:00.000Z'' (NetworkError ''Failed to fetch''))) = [example_item] \<and>
   sync_queue (snd (syncResult example_client ''tenses'' ''high'' ''1'' 3 4 70 ''STU_x'' 1000
       ''2026-11-03T10:00:00.000Z'' HttpOk)) = [] \<and>
   \<not> hasValidCache (snd (syncResult example_client ''tenses'' ''high'' ''1'' 3 4 70 ''STU_x'' 1000
       ''2026-11-03T10:00:00.000Z'' HttpOk))"
proof -
  have sid: "fst (getStudentId example_client ''STU_x'') = ''STU_1''"
    by (simp add: getStudentId_def example_client_def)
  have name: "getStudentName example_client = None"
    by (simp add: getStudentName_def example_client_def example_store_def)
  have q: "sync_queue example_client = []"
    by (simp add: example_client_def)
  have ne: "NetworkError ''Failed to fetch'' \<noteq> HttpOk" by simp
  note t = syncResult_queues_on_failure [where c = example_client and subject = "''tenses''"
      and level = "''high''" and st = "''1''" and scr = 3 and tot = 4 and tt = 70
      and generated = "''STU_x''" and now = 1000 and isodate = "''2026-11-03T10:00:00.000Z''"]
  from t [where outcome = "NetworkError ''Failed to fetch''"] t [where outcome = HttpOk] ne
  show ?thesis
    by (simp add: sid name q example_item_def make_payload_def payload.extend_def)
qed

section \<open>Sessions, approval and passwords on the backend\<close>


lemma find_index_Some:
  "find_index P xs = Some i \<Longrightarrow> i < length xs \<and> P (xs ! i) \<and> (\<forall>j < i. \<not> P (xs ! j))"
proof (induction xs arbitrary: i)
  case Nil
  then show ?case by simp
next
  case (Cons x xs)
  show ?case
  proof (cases "P x")
    case True
    with Cons.prems show ?thesis by simp
  next
    case False
    with Cons.prems obtain k where k: "find_index P xs = Some k" "i = Suc k"
      by auto
    from Cons.IH [OF k(1)] have "k < length xs" "P (xs ! k)" "\<forall>j < k. \<not> P (xs ! j)"
      by simp_all
    with False k(2) show ?thesis
      by (auto simp: nth_Cons split: nat.splits)
  qed
qed

lemma find_index_None: "find_index P xs = None \<longleftrightarrow> (\<forall>x \<in> set xs. \<not> P x)"
  by (induction xs) auto

lemma text_finder_Some:
  assumes "text_finder mc s cells = Some k"
  shows "k < length cells \<and> cell_matches mc s (cells ! k) \<and>
         (\<forall>j < k. \<not> cell_matches mc s (cells ! j))"
proof -
  from assms have "find_index (cell_matches mc s) cells = Some k"
    by (simp add: text_finder_def)
  then show ?thesis by (rule find_index_Some)
qed

lemma findRowByColumn_Some:
  assumes "findRowByColumn sheet col v = Some (i, row)"
  shows "v \<noteq> [] \<and> i < length sheet \<and> row = sheet ! i \<and>
         cell_matches (col \<noteq> EMAIL) (js_trim v) (cell col row) \<and>
         (\<forall>j < i. \<not> cell_matches (col \<noteq> EMAIL) (js_trim v) (cell col (sheet ! j)))"
proof -
  from assms have v: "v \<noteq> []" and t: "js_trim v \<noteq> []" and s: "sheet \<noteq> []"
    by (auto simp: findRowByColumn_def Let_def split: if_splits)
  from assms v t s obtain k where k: "text_finder (col \<noteq> EMAIL) (js_trim v) (map (cell col) sheet) = Some k"
    by (auto simp: findRowByColumn_def Let_def split: if_splits option.splits)
  with assms v t s have ik: "i = k" "row = sheet ! k"
    by (auto simp: findRowByColumn_def Let_def split: if_splits)
  note tf = text_finder_Some [OF k]
  from tf have len: "k < length sheet" by simp
  from tf len have m': "cell_matches (col \<noteq> EMAIL) (js_trim v) (cell col (sheet ! k))"
    by auto
  have first': "\<forall>j < k. \<not> cell_matches (col \<noteq> EMAIL) (js_trim v) (cell col (sheet ! j))"
  proof (intro allI impI)
    fix j assume jk: "j < k"
    with tf have "\<not> cell_matches (col \<noteq> EMAIL) (js_trim v) (map (cell col) sheet ! j)"
      by blast
    with jk len show "\<not> cell_matches (col \<noteq> EMAIL) (js_trim v) (cell col (sheet ! j))"
      by simp
  qed
  show ?thesis
    using v ik len m' first' by simp
qed


lemma checkSession_iff:
  assumes "registration b = Some sheet"
    and "findRowByColumn sheet STUDENT_ID sid = Some (i, row)"
    and "normal_status (reg_status row) = ''approved''"
  shows "resp_success (handleCheckSession b sid tok) \<longleftrightarrow> tok \<noteq> [] \<and> tok = reg_sessionToken row"
proof -
  from findRowByColumn_Some [OF assms(2)] have "sid \<noteq> []" by simp
  then show ?thesis
    using assms by (auto simp: handleCheckSession_def fail_reason_def failure_def)
qed

lemma checkSession_success:
  assumes "resp_success (handleCheckSession b sid tok)"
  shows "\<exists>sheet i row. registration b = Some sheet \<and>
           findRowByColumn sheet STUDENT_ID sid = Some (i, row) \<and>
           normal_status (reg_status row) = ''approved'' \<and> tok = reg_sessionToken row \<and> tok \<noteq> []"
  using assms
  by (auto simp: handleCheckSession_def fail_reason_def failure_def
           split: if_splits option.splits)

lemma checkSession_unique:
  assumes "resp_success (handleCheckSession b sid t1)" and "resp_success (handleCheckSession b sid t2)"
  shows "t1 = t2"
  using checkSession_success [OF assms(1)] checkSession_success [OF assms(2)] by auto

lemma login_success:
  assumes "resp_success (fst (handleLogin digest b e p uuid now))"
  shows "\<exists>sheet i row. registration b = Some sheet \<and>
           findRowByColumn sheet EMAIL (toLowerCase (js_trim e)) = Some (i, row) \<and>
           normal_status (reg_status row) = ''approved'' \<and>
           hashPassword digest p (reg_salt row) = reg_hash row \<and>
           e \<noteq> [] \<and> p \<noteq> [] \<and> attempts_of b (toLowerCase (js_trim e)) < 5 \<and>
           registration (snd (handleLogin digest b e p uuid now)) =
             Some (sheet[i := row\<lparr>reg_lastLogin := now, reg_sessionToken := uuid\<rparr>]) \<and>
           resp_token (fst (handleLogin digest b e p uuid now)) = Some uuid \<and>
           resp_studentId (fst (handleLogin digest b e p uuid now)) = Some (reg_studentId row)"
  using assms
  by (auto simp: handleLogin_def Let_def fail_with_def fail_status_def failure_def
           split: if_splits option.splits)

lemma cell_STUDENT_ID: "cell STUDENT_ID = reg_studentId"
  by (rule ext) simp

lemma findRowByColumn_same_ids:
  assumes "map reg_studentId sheet' = map reg_studentId sheet"
  shows "findRowByColumn sheet' STUDENT_ID v =
           map_option (\<lambda>(k, r). (k, sheet' ! k)) (findRowByColumn sheet STUDENT_ID v)"
proof -
  have cells: "map (cell STUDENT_ID) sheet' = map (cell STUDENT_ID) sheet"
    using assms by (simp add: cell_STUDENT_ID)
  have len: "length sheet' = length sheet"
    using assms by (metis length_map)
  have ids: "\<And>k. k < length sheet \<Longrightarrow> reg_studentId (sheet' ! k) = reg_studentId (sheet ! k)"
    using assms len by (metis nth_map)
  have emp: "(sheet' = []) = (sheet = [])"
    using len by auto
  show ?thesis
  proof (cases "text_finder True (js_trim v) (map (cell STUDENT_ID) sheet)")
    case None
    then show ?thesis
      by (simp add: findRowByColumn_def Let_def cells emp)
  next
    case (Some k)
    from text_finder_Some [OF Some] have "k < length sheet" by simp
    with ids have "reg_studentId (sheet' ! k) = reg_studentId (sheet ! k)" by simp
    then show ?thesis
      by (simp add: findRowByColumn_def Let_def cells emp Some)
  qed
qed

lemma findRowByColumn_id_trimmed:
  assumes "js_trim v = v" and "v \<noteq> []"
  shows "findRowByColumn sheet STUDENT_ID v =
           (case text_finder True v (map reg_studentId sheet) of None \<Rightarrow> None
            | Some k \<Rightarrow> Some (k, sheet ! k))"
proof (cases "text_finder True v (map reg_studentId sheet)")
  case None
  then show ?thesis
    using assms by (simp add: findRowByColumn_def Let_def cell_STUDENT_ID)
next
  case (Some k)
  from text_finder_Some [OF Some] have kl: "k < length sheet" by simp
  from text_finder_Some [OF Some] kl have "reg_studentId (sheet ! k) = v"
    by (auto simp: cell_matches_def)
  moreover from kl have "sheet \<noteq> []" by auto
  ultimately show ?thesis
    using assms Some by (simp add: findRowByColumn_def Let_def cell_STUDENT_ID)
qed

lemma second_login_invalidates:
  assumes sheet: "registration b = Some sheet"
    and dist: "distinct (map reg_studentId sheet)"
    and ok: "resp_success (fst (handleLogin digest b e p uuid now))"
    and sid: "resp_studentId (fst (handleLogin digest b e p uuid now)) = Some sid"
    and trimmed: "js_trim sid = sid"
  shows "resp_success (handleCheckSession (snd (handleLogin digest b e p uuid now)) sid tok)
           \<longleftrightarrow> sid \<noteq> [] \<and> tok \<noteq> [] \<and> tok = uuid"
proof -
  let ?b' = "snd (handleLogin digest b e p uuid now)"
  from login_success [OF ok] sheet sid obtain i row where
    found: "findRowByColumn sheet EMAIL (toLowerCase (js_trim e)) = Some (i, row)"
    and appr: "normal_status (reg_status row) = ''approved''"
    and reg': "registration ?b' = Some (sheet[i := row\<lparr>reg_lastLogin := now, reg_sessionToken := uuid\<rparr>])"
    and rid: "reg_studentId row = sid"
    by auto
  let ?row' = "row\<lparr>reg_lastLogin := now, reg_sessionToken := uuid\<rparr>"
  let ?sheet' = "sheet[i := ?row']"
  from findRowByColumn_Some [OF found] have i: "i < length sheet" and row: "row = sheet ! i"
    by simp_all
  have same: "map reg_studentId ?sheet' = map reg_studentId sheet"
    using i row by (simp add: map_update list_update_same_conv)
  note fr = findRowByColumn_same_ids [OF same, of sid]
  show ?thesis
  proof (cases "findRowByColumn sheet STUDENT_ID sid")
    case None
    have "\<not> resp_success (handleCheckSession ?b' sid tok)"
      using fr None reg' by (simp add: handleCheckSession_def fail_reason_def failure_def)
    moreover have "sid = []"
    proof (rule ccontr)
      assume ne: "sid \<noteq> []"
      from None have tf: "text_finder True sid (map reg_studentId sheet) = None"
        by (simp add: findRowByColumn_id_trimmed [OF trimmed ne] split: option.splits)
      have "map reg_studentId sheet ! i = sid"
        using i row rid by simp
      with i have "sid \<in> set (map reg_studentId sheet)"
        by (metis length_map nth_mem)
      with tf show False
        by (auto simp: text_finder_def find_index_None cell_matches_def)
    qed
    ultimately show ?thesis by simp
  next
    case (Some a)
    obtain k r where a: "a = (k, r)" by (cases a)
    from Some a have fk: "findRowByColumn sheet STUDENT_ID sid = Some (k, r)" by simp
    note fs = findRowByColumn_Some [OF fk]
    from fs have ne: "sid \<noteq> []" and k: "k < length sheet" and rk: "r = sheet ! k"
      by blast+
    from fs trimmed rk have kid: "reg_studentId (sheet ! k) = sid"
      by (auto simp: cell_matches_def)
    from dist k i kid rid row have "k = i"
      by (metis length_map nth_eq_iff_index_eq nth_map)
    with fr Some a have f': "findRowByColumn ?sheet' STUDENT_ID sid = Some (i, ?row')"
      using i by simp
    have appr': "normal_status (reg_status ?row') = ''approved''"
      using appr by simp
    have "reg_sessionToken ?row' = uuid" by simp
    with checkSession_iff [OF reg' f' appr', of tok] ne show ?thesis by auto
  qed
qed


lemma js_trim_examples [simp]:
  "js_trim ''Asha@School.com '' = ''Asha@School.com''"
  "js_trim ''asha@school.com'' = ''asha@school.com''"
  "js_trim ''STU_1'' = ''STU_1''"
  "js_trim ''approved'' = ''approved''"
  "js_trim ''pending'' = ''pending''"
  by (simp_all add: js_trim_def is_space_def)

lemma toLowerCase_examples [simp]:
  "toLowerCase ''Asha@School.com'' = ''asha@school.com''"
  "toLowerCase ''asha@school.com'' = ''asha@school.com''"
  "toLowerCase ''approved'' = ''approved''"
  "toLowerCase ''pending'' = ''pending''"
  by (simp_all add: toLowerCase_def lower_char_def)

lemma first_login_eval:
  "fst first_login = failure\<lparr>resp_success := True, resp_studentId := Some ''STU_1'',
      resp_studentName := Some ''Asha'', resp_email := Some ''asha@school.com'',
      resp_token := Some ''uuid-A''\<rparr>"
  "registration (snd first_login) = Some [example_student\<lparr>
      reg_lastLogin := ''2026-11-03T10:00:00.000Z'', reg_sessionToken := ''uuid-A''\<rparr>]"
  "login_attempts (snd first_login) (rateLimitKey ''asha@school.com'') = None"
  by (simp_all add: first_login_def handleLogin_def Let_def attempts_of_def example_backend_def
        findRowByColumn_def text_finder_def cell_matches_def normal_status_def
        example_student_def)

lemma second_login_eval:
  "fst second_login = failure\<lparr>resp_success := True, resp_studentId := Some ''STU_1'',
      resp_studentName := Some ''Asha'', resp_email := Some ''asha@school.com'',
      resp_token := Some ''uuid-B''\<rparr>"
  by (simp add: second_login_def handleLogin_def Let_def attempts_of_def first_login_eval
        findRowByColumn_def text_finder_def cell_matches_def normal_status_def
        example_student_def)

theorem checkSession_empty_token_counterexample:
  "findRowByColumn [example_student] STUDENT_ID ''STU_1'' = Some (0, example_student) \<and>
   normal_status (reg_status example_student) = ''approved'' \<and>
   [] = reg_sessionToken example_student \<and>
   \<not> resp_success (handleCheckSession example_backend ''STU_1'' [])"
  by (simp add: handleCheckSession_def example_backend_def example_student_def
        findRowByColumn_def text_finder_def cell_matches_def normal_status_def
        fail_reason_def failure_def)


text \<open>
  C2, as the code has it. For a student whose row is found by id and whose status is
  approved, \<^verbatim>\<open>checkSession\<close> succeeds exactly when the presented token is not empty
  and equals the stored \<^verbatim>\<open>activeSessionToken\<close> (an empty token is refused as a missing
  parameter, also when the stored token is empty). A successful login writes its fresh
  token over the stored one. So at most one token validates at a time, and after a
  later login of the same student (ids distinct in the sheet, the id free of
  surrounding blanks) every other token, the first device's among them, is refused.
\<close>

theorem single_device_session:
  "(\<forall>sheet i row.
      registration b = Some sheet \<and> findRowByColumn sheet STUDENT_ID sid = Some (i, row) \<and>
      normal_status (reg_status row) = ''approved'' \<longrightarrow>
      (resp_success (handleCheckSession b sid tok) \<longleftrightarrow> tok \<noteq> [] \<and> tok = reg_sessionToken row)) \<and>
   (resp_success (fst (handleLogin digest b e p uuid now)) \<longrightarrow>
      (\<exists>sheet i row. registration b = Some sheet \<and>
         findRowByColumn sheet EMAIL (toLowerCase (js_trim e)) = Some (i, row) \<and>
         registration (snd (handleLogin digest b e p uuid now)) =
           Some (sheet[i := row\<lparr>reg_lastLogin := now, reg_sessionToken := uuid\<rparr>]) \<and>
         resp_token (fst (handleLogin digest b e p uuid now)) = Some uuid \<and>
         resp_studentId (fst (handleLogin digest b e p uuid now)) = Some (reg_studentId row))) \<and>
   (\<forall>t1 t2. resp_success (handleCheckSession b sid t1) \<and>
            resp_success (handleCheckSession b sid t2) \<longrightarrow> t1 = t2) \<and>
   (\<forall>sheet t1.
      registration b = Some sheet \<and> distinct (map reg_studentId sheet) \<and>
      resp_success (fst (handleLogin digest b e p uuid now)) \<and>
      resp_studentId (fst (handleLogin digest b e p uuid now)) = Some sid \<and>
      js_trim sid = sid \<and> t1 \<noteq> uuid \<longrightarrow>
      \<not> resp_success (handleCheckSession (snd (handleLogin digest b e p uuid now)) sid t1))"
proof (intro conjI allI impI)
  fix sheet i row
  assume "registration b = Some sheet \<and> findRowByColumn sheet STUDENT_ID sid = Some (i, row) \<and>
      normal_status (reg_status row) = ''approved''"
  then show "resp_success (handleCheckSession b sid tok) \<longleftrightarrow> tok \<noteq> [] \<and> tok = reg_sessionToken row"
    using checkSession_iff by blast
next
  assume "resp_success (fst (handleLogin digest b e p uuid now))"
  from login_success [OF this]
  show "\<exists>sheet i row. registration b = Some sheet \<and>
         findRowByColumn sheet EMAIL (toLowerCase (js_trim e)) = Some (i, row) \<and>
         registration (snd (handleLogin digest b e p uuid now)) =
           Some (sheet[i := row\<lparr>reg_lastLogin := now, reg_sessionToken := uuid\<rparr>]) \<and>
         resp_token (fst (handleLogin digest b e p uuid now)) = Some uuid \<and>
         resp_studentId (fst (handleLogin digest b e p uuid now)) = Some (reg_studentId row)"
    by blast
next
  fix t1 t2
  assume "resp_success (handleCheckSession b sid t1) \<and> resp_success (handleCheckSession b sid t2)"
  then show "t1 = t2" using checkSession_unique by blast
next
  fix sheet t1
  assume a: "registration b = Some sheet \<and> distinct (map reg_studentId sheet) \<and>
      resp_success (fst (handleLogin digest b e p uuid now)) \<and>
      resp_studentId (fst (handleLogin digest b e p uuid now)) = Some sid \<and>
      js_trim sid = sid \<and> t1 \<noteq> uuid"
  then have "resp_success (handleCheckSession (snd (handleLogin digest b e p uuid now)) sid t1)
           \<longleftrightarrow> sid \<noteq> [] \<and> t1 \<noteq> [] \<and> t1 = uuid"
    using second_login_invalidates [of b sheet digest e p uuid now sid t1] by blast
  with a show "\<not> resp_success (handleCheckSession (snd (handleLogin digest b e p uuid now)) sid t1)"
    by simp
qed

theorem single_device_session_witness:
  "resp_success (handleCheckSession (snd first_login) ''STU_1'' ''uuid-A'') \<and>
   resp_success (fst second_login) \<and>
   \<not> resp_success (handleCheckSession (snd second_login) ''STU_1'' ''uuid-A'')"
proof -
  have reg1: "registration (snd first_login) = Some [example_student\<lparr>
      reg_lastLogin := ''2026-11-03T10:00:00.000Z'', reg_sessionToken := ''uuid-A''\<rparr>]"
    by (rule first_login_eval)
  have found: "findRowByColumn [example_student\<lparr>
      reg_lastLogin := ''2026-11-03T10:00:00.000Z'', reg_sessionToken := ''uuid-A''\<rparr>]
      STUDENT_ID ''STU_1'' = Some (0, example_student\<lparr>
      reg_lastLogin := ''2026-11-03T10:00:00.000Z'', reg_sessionToken := ''uuid-A''\<rparr>)"
    by (simp add: findRowByColumn_def text_finder_def cell_matches_def example_student_def)
  have appr: "normal_status (reg_status (example_student\<lparr>
      reg_lastLogin := ''2026-11-03T10:00:00.000Z'', reg_sessionToken := ''uuid-A''\<rparr>)) = ''approved''"
    by (simp add: normal_status_def example_student_def)
  have dist: "distinct (map reg_studentId [example_student\<lparr>
      reg_lastLogin := ''2026-11-03T10:00:00.000Z'', reg_sessionToken := ''uuid-A''\<rparr>])"
    by simp
  have ok2: "resp_success (fst second_login)"
    by (simp add: second_login_eval failure_def)
  have sid2: "resp_studentId (fst second_login) = Some ''STU_1''"
    by (simp add: second_login_eval failure_def)
  note t = single_device_session [where b = "snd first_login" and sid = "''STU_1''"
      and digest = example_digest and e = "''asha@school.com''" and p = "''secret1''"
      and uuid = "''uuid-B''" and now = "''2026-11-03T11:00:00.000Z''"]
  have 1: "resp_success (handleCheckSession (snd first_login) ''STU_1'' ''uuid-A'')"
    using t [where tok = "''uuid-A''", THEN conjunct1] reg1 found appr by auto
  have 3: "\<not> resp_success (handleCheckSession (snd second_login) ''STU_1'' ''uuid-A'')"
    using t [where tok = "''uuid-A''", THEN conjunct2, THEN conjunct2, THEN conjunct2,
        rule_format, of _ "''uuid-A''"] reg1 dist ok2 sid2
    by (simp add: second_login_def [symmetric])
  from 1 ok2 3 show ?thesis by simp
qed


lemma js_trim_ravi [simp]:
  "js_trim ''ravi@school.com'' = ''ravi@school.com''"
  "js_trim ''Ravi'' = ''Ravi''"
  by (simp_all add: js_trim_def is_space_def)

lemma toLowerCase_ravi [simp]: "toLowerCase ''ravi@school.com'' = ''ravi@school.com''"
  by (simp add: toLowerCase_def lower_char_def)





















section \<open>Properties of the quiz engine\<close>


lemma js_trim_Nil [simp]: "js_trim [] = []"
  by (simp add: js_trim_def)

lemma valid_question_fields:
  assumes "valid_question x"
  shows "\<exists>s os a. get_prop x ''q'' = Some (JStr s) \<and> js_trim s \<noteq> [] \<and> s \<noteq> [] \<and>
           get_prop x ''options'' = Some (JArr os) \<and> 2 \<le> length os \<and>
           get_prop x ''answer'' = Some (JNum (of_nat a)) \<and> a < length os"
proof -
  from assms have q: "nonblank_string (get_prop x ''q'')"
    and o: "options_array (get_prop x ''options'')"
    and a: "answer_in_range (get_prop x ''answer'') (options_length (get_prop x ''options''))"
    by (simp_all add: valid_question_def)
  from q obtain s where s: "get_prop x ''q'' = Some (JStr s)" "js_trim s \<noteq> []"
    by (auto elim: nonblank_string.elims)
  from s(2) have sne: "s \<noteq> []" by auto
  from o obtain os where os: "get_prop x ''options'' = Some (JArr os)" "2 \<le> length os"
    by (auto elim: options_array.elims)
  from a os(1) obtain r where r: "get_prop x ''answer'' = Some (JNum r)"
    "r = of_int \<lfloor>r\<rfloor>" "0 \<le> r" "r < of_nat (length os)"
    by (auto elim!: answer_in_range.elims)
  let ?a = "nat \<lfloor>r\<rfloor>"
  from r(2,3) have ra: "r = of_nat ?a"
    by (metis of_nat_nat zero_le_floor)
  with r(4) have "?a < length os"
    by (metis of_nat_less_iff)
  with s sne os r(1) ra show ?thesis by metis
qed

lemma js_index_of_nat: "a < length arr \<Longrightarrow> js_index arr (of_nat a) = Some (arr ! a)"
  by (simp add: js_index_def)

text \<open>
  C9. Every question kept by \<^verbatim>\<open>validateQuestions\<close> has a string \<^verbatim>\<open>q\<close> that is not
  empty (nor blank), an array \<^verbatim>\<open>options\<close> of at least two entries and a number
  \<^verbatim>\<open>answer\<close> that is an integer with \<open>0 \<le> answer < options.length\<close>, so
  \<^verbatim>\<open>item.options[item.answer]\<close> is an element of the array. A set that yields no valid
  question makes \<^verbatim>\<open>init\<close> show the error \<open>No valid questions found in this set.\<close>; a
  quiz that starts has at least one question.
\<close>

theorem validated_questions_safe:
  "(\<forall>x \<in> set (validateQuestions raw).
      \<exists>s os a. get_prop x ''q'' = Some (JStr s) \<and> s \<noteq> [] \<and>
        get_prop x ''options'' = Some (JArr os) \<and> 2 \<le> length os \<and>
        get_prop x ''answer'' = Some (JNum (of_nat a)) \<and> a < length os \<and>
        js_index (q_options (question_of x)) (q_answer (question_of x)) = Some (os ! a)) \<and>
   (validateQuestions raw = [] \<longrightarrow>
      init et rnd st (Body raw) = Inl No_valid_questions \<and>
      error_message No_valid_questions = Some ''No valid questions found in this set.'') \<and>
   (\<forall>s. init et rnd st (Body raw) = Inr s \<longrightarrow>
      questions s \<noteq> [] \<and>
      (\<forall>item \<in> set (questions s). js_index (q_options item) (q_answer item) \<noteq> None))"
proof (intro conjI ballI allI impI)
  fix x assume "x \<in> set (validateQuestions raw)"
  then have "valid_question x"
    by (cases raw) auto
  from valid_question_fields [OF this] obtain s os a where
    f: "get_prop x ''q'' = Some (JStr s)" "s \<noteq> []"
       "get_prop x ''options'' = Some (JArr os)" "2 \<le> length os"
       "get_prop x ''answer'' = Some (JNum (of_nat a))" "a < length os"
    by blast
  then have "js_index (q_options (question_of x)) (q_answer (question_of x)) = Some (os ! a)"
    by (simp add: js_index_of_nat)
  with f show "\<exists>s os a. get_prop x ''q'' = Some (JStr s) \<and> s \<noteq> [] \<and>
        get_prop x ''options'' = Some (JArr os) \<and> 2 \<le> length os \<and>
        get_prop x ''answer'' = Some (JNum (of_nat a)) \<and> a < length os \<and>
        js_index (q_options (question_of x)) (q_answer (question_of x)) = Some (os ! a)"
    by blast
next
  assume "validateQuestions raw = []"
  then show "init et rnd st (Body raw) = Inl No_valid_questions"
    by (simp add: init_def)
next
  show "error_message No_valid_questions = Some ''No valid questions found in this set.''"
    by simp
next
  fix s assume i: "init et rnd st (Body raw) = Inr s"
  then have qs: "questions s = map question_of (validateQuestions raw)"
    and ne: "validateQuestions raw \<noteq> []"
    by (auto simp: init_def Let_def split: if_splits)
  from qs ne show "questions s \<noteq> []" by simp
  fix item assume "item \<in> set (questions s)"
  with qs obtain x where x: "x \<in> set (validateQuestions raw)" "item = question_of x"
    by auto
  from x(1) have "valid_question x" by (cases raw) auto
  from valid_question_fields [OF this] obtain os a where
    "get_prop x ''options'' = Some (JArr os)"
    "get_prop x ''answer'' = Some (JNum (of_nat a))" "a < length os"
    by blast
  then show "js_index (q_options item) (q_answer item) \<noteq> None"
    by (simp add: x(2) js_index_of_nat)
qed

lemma validate_mixed_set:
  "validateQuestions mixed_set =
     [JObj [(''q'', JStr ''She ___ to school.''),
            (''options'', JArr [JStr ''go'', JStr ''goes'']), (''answer'', JNum 1)]]"
  by (simp add: mixed_set_def valid_question_def js_trim_def is_space_def)

theorem validated_questions_safe_witness:
  "validateQuestions mixed_set =
     [JObj [(''q'', JStr ''She ___ to school.''),
            (''options'', JArr [JStr ''go'', JStr ''goes'']), (''answer'', JNum 1)]] \<and>
   js_index [JStr ''go'', JStr ''goes''] 1 = Some (JStr ''goes'') \<and>
   validateQuestions (JArr [JNull]) = [] \<and>
   init Fill (\<lambda>q i. 0) ''1'' (Body (JArr [JNull])) = Inl No_valid_questions"
proof -
  let ?x = "JObj [(''q'', JStr ''She ___ to school.''),
            (''options'', JArr [JStr ''go'', JStr ''goes'']), (''answer'', JNum 1)]"
  have mem: "?x \<in> set (validateQuestions mixed_set)"
    by (simp add: validate_mixed_set)
  from validated_questions_safe [where raw = mixed_set, THEN conjunct1, rule_format, OF mem]
  have 1: "js_index [JStr ''go'', JStr ''goes''] 1 = Some (JStr ''goes'')"
    by auto
  have e: "validateQuestions (JArr [JNull]) = []"
    by (simp add: valid_question_def)
  from validated_questions_safe [where raw = "JArr [JNull]" and et = Fill and rnd = "\<lambda>q i. 0"
      and st = "''1''", THEN conjunct2, THEN conjunct1, rule_format, OF e]
  have 2: "init Fill (\<lambda>q i. 0) ''1'' (Body (JArr [JNull])) = Inl No_valid_questions"
    by simp
  from validate_mixed_set 1 e 2 show ?thesis by simp
qed


subsection \<open>Scoring a submission\<close>

text \<open>
  A submission does nothing after an earlier one or while a question is unanswered;
  otherwise it locks the quiz, and stores and shows the rounded percentage of the score.
\<close>

lemma submitQuiz_noop:
  assumes "submitted s \<or> count_answered (answers s) < length (questions s)"
  shows "submitQuiz s data subject level st tt dat ts = (s, None)"
  using assms by (auto simp: submitQuiz_def)

lemma submitQuiz_percent:
  assumes "\<not> submitted s" and "\<not> count_answered (answers s) < length (questions s)"
  shows "\<exists>r. submitQuiz s data subject level st tt dat ts = (s\<lparr>submitted := True\<rparr>, Some r) \<and>
           sub_score r = sum_list (map (\<lambda>(c, a). reveal (engineType s) c a)
                                     (zip (cards s) (answers s))) \<and>
           sub_percent r = percent_of (int (sub_score r)) (int (length (questions s))) \<and>
           sub_store r = fst (saveResult data subject level st (int (sub_score r))
                               (int (length (questions s))) tt dat ts)"
  using assms by (simp add: submitQuiz_def Let_def case_prod_beta saveResult_def)

lemma fold_reveal_buttons:
  "fold (\<lambda>(ia, btn) scored. if snd btn \<and> i = ia then 1 else scored) (enumerate n buttons) acc =
   (if n \<le> i \<and> i < n + length buttons \<and> snd (buttons ! (i - n)) then 1 else (acc :: nat))"
proof (induction buttons arbitrary: n acc)
  case Nil
  show ?case by auto
next
  case (Cons b bs)
  let ?F = "\<lambda>(ia, btn) scored. if snd btn \<and> i = ia then 1 else (scored :: nat)"
  have "fold ?F (enumerate n (b # bs)) acc =
        fold ?F (enumerate (Suc n) bs) (if snd b \<and> i = n then 1 else acc)"
    by (simp del: One_nat_def)
  also have "\<dots> = (if Suc n \<le> i \<and> i < Suc n + length bs \<and> snd (bs ! (i - Suc n)) then 1
                    else (if snd b \<and> i = n then 1 else acc))"
    by (rule Cons.IH)
  also have "\<dots> = (if n \<le> i \<and> i < n + length (b # bs) \<and> snd ((b # bs) ! (i - n)) then 1 else acc)"
  proof -
    consider "i < n" | "i = n" | "Suc n \<le> i" by linarith
    then show ?thesis
    proof cases
      case 1
      then show ?thesis by simp
    next
      case 2
      then show ?thesis by simp
    next
      case 3
      then have "(b # bs) ! (i - n) = bs ! (i - Suc n)" by (simp add: nth_Cons')
      with 3 show ?thesis by simp
    qed
  qed
  finally show ?case .
qed

lemma fold_keep: "fold (\<lambda>(ia, btn) scored. scored) xs acc = acc"
  by (induction xs arbitrary: acc) (simp_all add: case_prod_beta)

lemma revealMCQ_Picked:
  "revealMCQ buttons (Some (Picked i)) = (if i < length buttons \<and> snd (buttons ! i) then 1 else 0)"
  using fold_reveal_buttons [of i 0 buttons 0] by (simp add: revealMCQ_def)

lemma revealMCQ_other:
  "revealMCQ buttons None = 0" "revealMCQ buttons (Some (Chosen ob)) = 0"
  by (simp_all add: revealMCQ_def fold_keep)

lemma mset_shuffle_from:
  "k < length arr \<Longrightarrow> mset (shuffle_from rnd k arr) = mset arr"
proof (induction k arbitrary: arr)
  case 0
  then show ?case by simp
next
  case (Suc k)
  let ?j = "rnd (Suc k) mod (Suc k + 1)"
  have j: "?j < length arr"
  proof -
    have "?j < Suc (Suc k)" by simp
    with Suc.prems show ?thesis by linarith
  qed
  have "mset (arr[Suc k := arr ! ?j, ?j := arr ! Suc k]) = mset arr"
    using mset_swap [OF j Suc.prems] by simp
  moreover have "k < length (arr[Suc k := arr ! ?j, ?j := arr ! Suc k])"
    using Suc.prems by simp
  ultimately show ?case
    using Suc.IH [of "arr[Suc k := arr ! ?j, ?j := arr ! Suc k]"] by (simp add: Let_def)
qed

lemma mset_shuffle: "mset (shuffle rnd arr) = mset arr"
proof (cases arr)
  case Nil
  then show ?thesis by (simp add: shuffle_def)
next
  case (Cons a as)
  then have "length arr - 1 < length arr" by simp
  then show ?thesis by (simp add: shuffle_def mset_shuffle_from)
qed

lemma find_index_at:
  assumes "i < length xs" and "P (xs ! i)" and "\<And>j. j < length xs \<Longrightarrow> P (xs ! j) \<Longrightarrow> j = i"
  shows "find_index P xs = Some i"
proof (cases "find_index P xs")
  case None
  then have "\<not> P (xs ! i)" using assms(1) by (simp add: find_index_None)
  with assms(2) show ?thesis by simp
next
  case (Some k)
  from find_index_Some [OF Some] have "k < length xs" and "P (xs ! k)" by blast+
  then have "k = i" by (rule assms(3))
  with Some show ?thesis by simp
qed

lemma origIdx_make_opts: "map origIdx (make_opts item) = [0..<length (q_options item)]"
  by (rule nth_equalityI) (simp_all add: make_opts_def nth_enumerate_eq)

lemma distinct_origIdx_shuffle: "distinct (map origIdx (shuffle rnd (make_opts item)))"
proof -
  have "mset (map origIdx (shuffle rnd (make_opts item))) = mset (map origIdx (make_opts item))"
    by (simp add: mset_shuffle)
  then have "distinct (map origIdx (shuffle rnd (make_opts item))) =
             distinct (map origIdx (make_opts item))"
    by (rule mset_eq_imp_distinct_iff)
  then show ?thesis by (simp add: origIdx_make_opts)
qed

lemma button_correct:
  assumes "i < length (shuffle rnd (make_opts item))"
  shows "(Some i = find_index (\<lambda>ob. of_nat (origIdx ob) = q_answer item)
                     (shuffle rnd (make_opts item))) \<longleftrightarrow>
         of_nat (origIdx (shuffle rnd (make_opts item) ! i)) = q_answer item"
proof
  let ?opts = "shuffle rnd (make_opts item)"
  assume "Some i = find_index (\<lambda>ob. of_nat (origIdx ob) = q_answer item) ?opts"
  then have "find_index (\<lambda>ob. of_nat (origIdx ob) = q_answer item) ?opts = Some i" by simp
  from find_index_Some [OF this]
  show "of_nat (origIdx (?opts ! i)) = q_answer item" by blast
next
  let ?opts = "shuffle rnd (make_opts item)"
  assume here: "of_nat (origIdx (?opts ! i)) = q_answer item"
  have "find_index (\<lambda>ob. of_nat (origIdx ob) = q_answer item) ?opts = Some i"
  proof (rule find_index_at [OF assms])
    show "of_nat (origIdx (?opts ! i)) = q_answer item" by (rule here)
  next
    fix j
    assume j: "j < length ?opts" and "of_nat (origIdx (?opts ! j)) = q_answer item"
    with here have "origIdx (?opts ! j) = origIdx (?opts ! i)"
      by (metis of_nat_eq_iff)
    then have eq: "map origIdx ?opts ! j = map origIdx ?opts ! i"
      using j assms by simp
    have d: "distinct (map origIdx ?opts)" by (rule distinct_origIdx_shuffle)
    have lj: "j < length (map origIdx ?opts)" using j by simp
    have li: "i < length (map origIdx ?opts)" using assms by simp
    from nth_eq_iff_index_eq [OF d lj li] eq show "j = i" by blast
  qed
  then show "Some i = find_index (\<lambda>ob. of_nat (origIdx ob) = q_answer item) ?opts" by simp
qed

text \<open>
  A multiple-choice card scores one exactly when the button picked carries the option
  the question names as its answer, whatever the shuffle.
\<close>

lemma mcq_card_scores:
  "reveal Mcq (renderMCQ_card rnd item) a =
     (if chose_correct item (renderMCQ_card rnd item) a then 1 else 0)"
proof (cases a)
  case None
  then show ?thesis
    by (simp add: reveal_def renderMCQ_card_def Let_def revealMCQ_other chose_correct_def)
next
  case (Some ans)
  show ?thesis
  proof (cases ans)
    case (Chosen ob)
    with Some show ?thesis
      by (simp add: reveal_def renderMCQ_card_def Let_def revealMCQ_other chose_correct_def)
  next
    case (Picked i)
    let ?opts = "shuffle rnd (make_opts item)"
    show ?thesis
    proof (cases "i < length ?opts")
      case False
      with Some Picked show ?thesis
        by (simp add: reveal_def renderMCQ_card_def Let_def revealMCQ_Picked chose_correct_def)
    next
      case True
      then have nth: "map (\<lambda>(k, ob). (ob, Some k = find_index (\<lambda>ob. of_nat (origIdx ob) = q_answer item) ?opts))
                        (enumerate 0 ?opts) ! i =
                      (?opts ! i, Some i = find_index (\<lambda>ob. of_nat (origIdx ob) = q_answer item) ?opts)"
        by (simp add: nth_enumerate_eq)
      from Some Picked True show ?thesis
        by (simp add: reveal_def renderMCQ_card_def Let_def revealMCQ_Picked chose_correct_def
              nth button_correct)
    qed
  qed
qed

lemma mcq_cards_score:
  "sum_list (map (\<lambda>(c, a). reveal Mcq c a)
      (zip (map (\<lambda>(qIdx, item). renderMCQ_card (rnd qIdx) item) (enumerate n qs)) ans)) =
   length (filter (\<lambda>(item, c, a). chose_correct item c a)
      (zip qs (zip (map (\<lambda>(qIdx, item). renderMCQ_card (rnd qIdx) item) (enumerate n qs)) ans)))"
proof (induction qs arbitrary: n ans)
  case Nil
  show ?case by simp
next
  case (Cons q qs)
  show ?case
  proof (cases ans)
    case Nil
    then show ?thesis by simp
  next
    case (Cons a as)
    then show ?thesis
      using Cons.IH [of "Suc n" as] by (simp add: mcq_card_scores)
  qed
qed

text \<open>
  With the multiple-choice engine the score of a submission is the number of questions
  answered with the right option.
\<close>

lemma mcq_score_is_correct_count:
  assumes "engineType s = Mcq" and "cards s = render_cards Mcq rnd (questions s)"
  shows "sum_list (map (\<lambda>(c, a). reveal (engineType s) c a) (zip (cards s) (answers s))) =
         correct_count s"
  using mcq_cards_score [of rnd 0 "questions s" "answers s"] assms
  by (simp add: correct_count_def render_cards_def)

text \<open>
  A fill card scores one exactly when the option chosen is the right one and the
  question text has a blank marker.
\<close>

lemma fill_card_scores:
  assumes "ob \<in> set (shuffle rnd (make_opts item))"
  shows "reveal Fill (renderFill_card rnd item) (Some (Chosen ob)) =
           (if has_blank (escapeHTML (q_text item)) \<and>
               chose_correct item (renderFill_card rnd item) (Some (Chosen ob)) then 1 else 0)"
proof -
  from assms have "ob \<in># mset (shuffle rnd (make_opts item))" by simp
  then have "ob \<in> set (make_opts item)" by (simp add: mset_shuffle)
  then have "isCorrect ob = (of_nat (origIdx ob) = q_answer item)"
    by (auto simp: make_opts_def)
  then show ?thesis
    by (simp add: reveal_def renderFill_card_def revealFill_def chose_correct_def)
qed

lemma validate_plain_set:
  "validateQuestions plain_set = [JObj [(''q'', JStr ''Choose the past tense of go''),
     (''options'', JArr [JStr ''went'', JStr ''goed'']), (''answer'', JNum 0)]]"
  by (simp add: plain_set_def valid_question_def js_trim_def is_space_def)

lemma no_blank_plain: "\<not> has_blank (escapeHTML ''Choose the past tense of go'')"
  by (simp add: has_blank_def escapeHTML_def)

lemma shuffle_two: "shuffle (\<lambda>i. 0) [a, b] = [b, a]"
  by (simp add: shuffle_def)

lemma init_plain_set: "init Fill (\<lambda>q i. 0) ''1'' (Body plain_set) = Inr plain_quiz"
  by (simp add: init_def validate_plain_set Let_def render_cards_def renderFill_card_def
        make_opts_def enumerate_eq_zip no_blank_plain shuffle_two plain_quiz_def went_def upt_rec)

lemma percent_of_0_1: "percent_of 0 1 = Num 0"
  by code_simp

lemma plain_quiz_fields:
  "questions plain_quiz = [\<lparr>q_text = ''Choose the past tense of go'',
      q_options = [JStr ''went'', JStr ''goed''], q_answer = 0\<rparr>]"
  "cards plain_quiz = [FillCard False [\<lparr>opt_text = JStr ''goed'', origIdx = 1, isCorrect = False\<rparr>, went]]"
  "answers plain_quiz = [None]"
  "engineType plain_quiz = Fill"
  "submitted plain_quiz = False"
  by (simp_all add: plain_quiz_def)

text \<open>
  C8 fails in the fill-in-the-blank engine. The set below passes \<^verbatim>\<open>validateQuestions\<close>;
  its question has no run of underscores or dots, so the card has no blank element.
  The student chooses the right option (\<open>went\<close>, original index 0, the answer) and
  submits: one question is answered correctly, the score is 0 and the percentage saved
  and shown is 0.
\<close>

theorem fill_without_blank_scores_zero:
  "init Fill (\<lambda>q i. 0) ''1'' (Body plain_set) = Inr plain_quiz \<and>
   correct_count (selectFill plain_quiz 0 went) = 1 \<and>
   map_option sub_score (snd (submitQuiz (selectFill plain_quiz 0 went) empty_store
      ''tenses'' ''high'' ''1'' 12 ''Nov 3, 2026'' 1000)) = Some 0 \<and>
   map_option sub_percent (snd (submitQuiz (selectFill plain_quiz 0 went) empty_store
      ''tenses'' ''high'' ''1'' 12 ''Nov 3, 2026'' 1000)) = Some (Num 0) \<and>
   map_option (\<lambda>r. getSetResult (sub_store r) ''tenses'' ''high'' ''1'')
     (snd (submitQuiz (selectFill plain_quiz 0 went) empty_store
      ''tenses'' ''high'' ''1'' 12 ''Nov 3, 2026'' 1000)) =
     Some (Some \<lparr>score = Some 0, total = Some 1, percentage = Some 0,
        date = Some ''Nov 3, 2026'', timestamp = Some 1000, timeTaken = Some 12\<rparr>)"
proof -
  define s where "s = selectFill plain_quiz 0 went"
  have f: "questions s = questions plain_quiz" "cards s = cards plain_quiz"
    "answers s = [Some (Chosen went)]" "engineType s = Fill" "submitted s = False"
    by (simp_all add: s_def selectFill_def plain_quiz_fields)
  have cc: "correct_count s = 1"
    by (simp add: correct_count_def f plain_quiz_fields chose_correct_def went_def)
  have best: "best_percentage empty_store ''tenses'' ''high'' ''1'' = 0"
    by (simp add: best_percentage_def getSetResult_def get3_def empty_store_def)
  have scr: "sum_list (map (\<lambda>(c, a). reveal (engineType s) c a) (zip (cards s) (answers s))) = 0"
    by (simp add: f plain_quiz_fields reveal_def revealFill_def)
  have cnt: "\<not> count_answered (answers s) < length (questions s)"
    by (simp add: f plain_quiz_fields count_answered_def)
  have len: "int (length (questions s)) = 1"
    by (simp add: f plain_quiz_fields)
  have pct: "snd (saveResult empty_store ''tenses'' ''high'' ''1'' 0 1 12 ''Nov 3, 2026'' 1000) = Num 0"
    by (simp add: saveResult_def Let_def percent_of_0_1)
  have sub: "snd (submitQuiz s empty_store ''tenses'' ''high'' ''1'' 12 ''Nov 3, 2026'' 1000) =
    Some \<lparr>sub_score = 0, sub_percent = Num 0,
      sub_store = fst (saveResult empty_store ''tenses'' ''high'' ''1'' 0 1 12 ''Nov 3, 2026'' 1000)\<rparr>"
    unfolding submitQuiz_def Let_def scr len
    using cnt by (simp add: f(5) case_prod_beta pct)
  have st: "getSetResult (fst (saveResult empty_store ''tenses'' ''high'' ''1'' 0 1 12
      ''Nov 3, 2026'' 1000)) ''tenses'' ''high'' ''1'' =
     Some \<lparr>score = Some 0, total = Some 1, percentage = Some 0,
        date = Some ''Nov 3, 2026'', timestamp = Some 1000, timeTaken = Some 12\<rparr>"
    by (simp add: saveResult_def Let_def percent_of_0_1 best getSetResult_put_entry)
  show ?thesis
    using init_plain_set cc by (simp add: s_def [symmetric] sub st)
qed

end
